theory Spec2Isabelle
  imports Complex_Main
begin

section \<open>Python values, exceptions and the operators the pipelines use\<close>

text \<open>
  The four pipelines exchange decoded JSON: the value of \<^verbatim>\<open>response.json()\<close>, the
  dictionaries built from it, and the tuples handed to the database driver. A Python
  dictionary is the list of its items (its keys are distinct), \<^verbatim>\<open>None\<close> is
  \<open>JNull\<close>, and a number is a rational or the float \<open>JNaN\<close> (not a number), the
  value that a data frame puts where a numeric column has no value.
\<close>

datatype json =
    JNull
  | JBool bool
  | JNum rat
  | JNaN
  | JStr string
  | JArr "json list"
  | JObj "(string \<times> json) list"

text \<open>
  The exceptions that the code can see. \<open>RequestException\<close> stands for the connection and
  timeout errors of \<^verbatim>\<open>requests.get\<close>; \<open>HTTPError\<close> is what
  \<^verbatim>\<open>raise_for_status\<close> raises and \<open>JSONDecodeError\<close> what \<^verbatim>\<open>response.json()\<close>
  raises on a body that is not JSON; both are subclasses of
  \<^verbatim>\<open>requests.RequestException\<close> (the second since requests 2.27).
  \<open>DatabaseError\<close> stands for every error raised by the database driver.
\<close>

datatype exn =
    RequestException
  | HTTPError nat
  | JSONDecodeError
  | KeyError string
  | IndexError
  | TypeError
  | AttributeError
  | ValueError string
  | UnboundLocalError string
  | DatabaseError

fun is_RequestException :: "exn \<Rightarrow> bool" where
  "is_RequestException RequestException = True"
| "is_RequestException (HTTPError c) = True"
| "is_RequestException JSONDecodeError = True"
| "is_RequestException e = False"

type_synonym 'a result = "exn + 'a"

text \<open>Sequencing of two evaluations: the first exception raised ends the evaluation.\<close>

definition and_then :: "'a result \<Rightarrow> ('a \<Rightarrow> 'b result) \<Rightarrow> 'b result" where
  "and_then r f = (case r of Inl e \<Rightarrow> Inl e | Inr v \<Rightarrow> f v)"

text \<open>
  Truth value of an object, as \<^verbatim>\<open>if x\<close> and \<^verbatim>\<open>not x\<close> test it;
  \<^verbatim>\<open>x or y\<close> is \<open>x\<close> when \<open>x\<close> is true and \<open>y\<close> otherwise.
\<close>

fun truthy :: "json \<Rightarrow> bool" where
  "truthy JNull = False"
| "truthy (JBool b) = b"
| "truthy (JNum n) = (n \<noteq> 0)"
| "truthy JNaN = True"
| "truthy (JStr s) = (s \<noteq> [])"
| "truthy (JArr xs) = (xs \<noteq> [])"
| "truthy (JObj kvs) = (kvs \<noteq> [])"

text \<open>\<^verbatim>\<open>x.get(k, d)\<close>: only a dictionary has the method.\<close>

fun py_get :: "json \<Rightarrow> string \<Rightarrow> json \<Rightarrow> json result" where
  "py_get (JObj kvs) k d = Inr (case map_of kvs k of None \<Rightarrow> d | Some v \<Rightarrow> v)"
| "py_get x k d = Inl AttributeError"

text \<open>\<^verbatim>\<open>x[k]\<close> with a string key.\<close>

fun py_item :: "json \<Rightarrow> string \<Rightarrow> json result" where
  "py_item (JObj kvs) k = (case map_of kvs k of None \<Rightarrow> Inl (KeyError k) | Some v \<Rightarrow> Inr v)"
| "py_item x k = Inl TypeError"

text \<open>\<^verbatim>\<open>x[0]\<close>. The keys of a decoded JSON object are strings, so 0 is never one.\<close>

fun py_first :: "json \<Rightarrow> json result" where
  "py_first (JArr xs) = (case xs of [] \<Rightarrow> Inl IndexError | x # rest \<Rightarrow> Inr x)"
| "py_first (JStr s) = (case s of [] \<Rightarrow> Inl IndexError | c # rest \<Rightarrow> Inr (JStr [c]))"
| "py_first (JObj kvs) = Inl (KeyError ''0'')"
| "py_first x = Inl TypeError"

text \<open>
  \<^verbatim>\<open>sep.join(x)\<close>: \<open>x\<close> is iterated (a list by its elements, a string by its
  characters, a dictionary by its keys) and every element must be a string.
\<close>

fun str_of :: "json \<Rightarrow> string option" where
  "str_of (JStr s) = Some s"
| "str_of x = None"

fun intercalate :: "string \<Rightarrow> string list \<Rightarrow> string" where
  "intercalate sep [] = []"
| "intercalate sep [s] = s"
| "intercalate sep (s # t # ss) = s @ sep @ intercalate sep (t # ss)"

fun py_join :: "string \<Rightarrow> json \<Rightarrow> json result" where
  "py_join sep (JArr xs) =
     (if list_all (\<lambda>x. str_of x \<noteq> None) xs
      then Inr (JStr (intercalate sep (map (\<lambda>x. the (str_of x)) xs)))
      else Inl TypeError)"
| "py_join sep (JStr s) = Inr (JStr (intercalate sep (map (\<lambda>c. [c]) s)))"
| "py_join sep (JObj kvs) = Inr (JStr (intercalate sep (map fst kvs)))"
| "py_join sep x = Inl TypeError"

section \<open>The gate of the crypto price pipeline\<close>

text \<open>
  \<^verbatim>\<open>check_send_time(**kwargs)\<close> of \<^verbatim>\<open>crypto_prices.py\<close> is called by the
  scheduler with the task context as keyword arguments. The world in which it runs has
  a wall clock too, which the function could read with \<^verbatim>\<open>datetime.now()\<close>.
\<close>

record datetime =
  year :: nat
  month :: nat
  day :: nat
  hour :: nat
  minute :: nat

datatype ctx_value = DateTime datetime | Opaque

record exec_world =
  wall_clock :: datetime
  kwargs :: "string \<rightharpoonup> ctx_value"

fun attr_hour :: "ctx_value \<Rightarrow> nat result" where
  "attr_hour (DateTime d) = Inr (hour d)"
| "attr_hour Opaque = Inl AttributeError"

definition check_send_time :: "exec_world \<Rightarrow> bool result" where
  "check_send_time w =
     (case kwargs w ''logical_date'' of
        None \<Rightarrow> Inl (KeyError ''logical_date'')
      | Some logical_date \<Rightarrow> and_then (attr_hour logical_date) (\<lambda>h. Inr (h = 8)))"

text \<open>Three instants used as examples: two wall-clock readings and a logical timestamp.\<close>

definition morning :: datetime where
  "morning = \<lparr>year = 2025, month = 4, day = 8, hour = 8, minute = 3\<rparr>"

definition night :: datetime where
  "night = \<lparr>year = 2026, month = 1, day = 1, hour = 23, minute = 59\<rparr>"

definition seven :: datetime where
  "seven = \<lparr>year = 2025, month = 4, day = 8, hour = 7, minute = 0\<rparr>"

section \<open>The upstream HTTP interface\<close>

text \<open>
  One call of \<^verbatim>\<open>requests.get\<close> either fails to obtain a reply (connection error,
  timeout) or obtains a reply with a status code and a body, which decodes as JSON or
  does not.
\<close>

datatype http_reply = NoReply | Reply nat "json option"

definition requests_get :: "http_reply \<Rightarrow> (nat \<times> json option) result" where
  "requests_get reply =
     (case reply of NoReply \<Rightarrow> Inl RequestException | Reply status body \<Rightarrow> Inr (status, body))"

text \<open>
  \<^verbatim>\<open>response.raise_for_status()\<close> raises for the client and server error codes
  ("bad responses (4xx, 5xx)" in the words of \<^verbatim>\<open>quotes.py\<close>) and for no other.
\<close>

definition raise_for_status :: "nat \<times> json option \<Rightarrow> unit result" where
  "raise_for_status response =
     (if 400 \<le> fst response \<and> fst response < 600 then Inl (HTTPError (fst response))
      else Inr ())"

definition response_json :: "nat \<times> json option \<Rightarrow> json result" where
  "response_json response =
     (case snd response of None \<Rightarrow> Inl JSONDecodeError | Some data \<Rightarrow> Inr data)"

text \<open>\<^verbatim>\<open>try: body except C: handler\<close>, the class \<open>C\<close> given by its membership test.\<close>

definition try_catch :: "(exn \<Rightarrow> bool) \<Rightarrow> 'a result \<Rightarrow> (exn \<Rightarrow> 'a result) \<Rightarrow> 'a result" where
  "try_catch caught body handler =
     (case body of
        Inl e \<Rightarrow> (if caught e then handler e else Inl e)
      | Inr v \<Rightarrow> Inr v)"

section \<open>The fetchers\<close>

text \<open>\<^verbatim>\<open>fetch_quote\<close> of \<^verbatim>\<open>quotes.py\<close>; the value \<open>JNull\<close> is its \<^verbatim>\<open>return None\<close>.\<close>

definition fetch_quote_quotes :: "http_reply \<Rightarrow> json result" where
  "fetch_quote_quotes reply =
     try_catch is_RequestException
       (and_then (requests_get reply) (\<lambda>response.
        and_then (raise_for_status response) (\<lambda>u.
        and_then (response_json response) (\<lambda>data.
        and_then (and_then (py_get data ''id'' JNull) (\<lambda>i.
                    if truthy i then Inr i else py_get data ''quoteId'' JNull)) (\<lambda>ident.
        and_then (py_get data ''content'' JNull) (\<lambda>content.
        and_then (and_then (py_get data ''originator'' (JObj [])) (\<lambda>originator.
                    py_get originator ''name'' (JStr ''Unknown''))) (\<lambda>author.
        and_then (and_then (py_get data ''tags'' (JArr [])) (py_join '', '')) (\<lambda>tags.
        Inr (JObj [(''id'', ident), (''content'', content),
                   (''author'', author), (''tags'', tags)])))))))))
       (\<lambda>e. Inr JNull)"

text \<open>
  \<^verbatim>\<open>fetch_quote\<close> of \<^verbatim>\<open>self_confidence.py\<close> checks neither the status nor the
  keys; its result here is the value it pushes to the inter-task channel under
  \<^verbatim>\<open>quote_data\<close>.
\<close>

definition fetch_quote_self_confidence :: "http_reply \<Rightarrow> json result" where
  "fetch_quote_self_confidence reply =
     and_then (requests_get reply) (\<lambda>response.
     and_then (response_json response) (\<lambda>quote_data.
     Inr quote_data))"

text \<open>
  \<^verbatim>\<open>fetch_crypto_prices\<close>: the three dictionaries of the returned list are built the
  same way, from the entry of one coin.
\<close>

definition coin_record :: "json \<Rightarrow> string \<Rightarrow> string \<Rightarrow> json result" where
  "coin_record data symbol coin =
     and_then (and_then (py_item data coin) (\<lambda>c. py_item c ''usd'')) (\<lambda>price_usd.
     and_then (and_then (py_item data coin) (\<lambda>c. py_item c ''usd_24h_change'')) (\<lambda>change_24h.
     Inr (JObj [(''symbol'', JStr symbol), (''price_usd'', price_usd),
                (''change_24h'', change_24h)])))"

definition fetch_crypto_prices :: "http_reply \<Rightarrow> json result" where
  "fetch_crypto_prices reply =
     try_catch is_RequestException
       (and_then (requests_get reply) (\<lambda>response.
        and_then (raise_for_status response) (\<lambda>u.
        and_then (response_json response) (\<lambda>data.
        and_then (coin_record data ''BTC'' ''bitcoin'') (\<lambda>btc.
        and_then (coin_record data ''ETH'' ''ethereum'') (\<lambda>eth.
        and_then (coin_record data ''BNB'' ''binancecoin'') (\<lambda>bnb.
        Inr (JArr [btc, eth, bnb]))))))))
       (\<lambda>e. Inl (ValueError ''Error fetching data from CoinGecko API''))"

text \<open>
  \<^verbatim>\<open>fetch_data\<close> of \<^verbatim>\<open>healthcare.py\<close>: the API key is an Airflow Variable, which
  may be unset; \<^verbatim>\<open>len(data)\<close> is printed after the value was pushed; the handler
  prints and re-raises what it caught.
\<close>

fun py_len :: "json \<Rightarrow> nat result" where
  "py_len (JStr s) = Inr (length s)"
| "py_len (JArr xs) = Inr (length xs)"
| "py_len (JObj kvs) = Inr (length kvs)"
| "py_len x = Inl TypeError"

definition fetch_data :: "string option \<Rightarrow> http_reply \<Rightarrow> json result" where
  "fetch_data rapidapi_key reply =
     try_catch (\<lambda>e. True)
       (and_then (case rapidapi_key of None \<Rightarrow> Inl (KeyError ''rapidapi_key'')
                                     | Some k \<Rightarrow> Inr k) (\<lambda>key.
        and_then (requests_get reply) (\<lambda>response.
        and_then (raise_for_status response) (\<lambda>u.
        and_then (response_json response) (\<lambda>data.
        and_then (py_len data) (\<lambda>n.
        Inr data))))))
       (\<lambda>e. Inl e)"

section \<open>The transformers\<close>

text \<open>
  \<^verbatim>\<open>transform_data\<close> of \<^verbatim>\<open>healthcare.py\<close>. The dictionary display that builds a
  record evaluates its seventeen value expressions in order; the first that raises
  ends it. The four location fields share the guard
  \<^verbatim>\<open>... if item.get("locations_raw") else None\<close>.
\<close>

definition location_field :: "json \<Rightarrow> (json \<Rightarrow> json result) \<Rightarrow> json result" where
  "location_field item path =
     and_then (py_get item ''locations_raw'' JNull) (\<lambda>guard.
       if truthy guard
       then and_then (and_then (py_item item ''locations_raw'') py_first) path
       else Inr JNull)"

definition record_fields :: "(string \<times> (json \<Rightarrow> json result)) list" where
  "record_fields =
     [(''id'', \<lambda>item. py_get item ''id'' JNull),
      (''date_posted'', \<lambda>item. py_get item ''date_posted'' JNull),
      (''title'', \<lambda>item. py_get item ''title'' JNull),
      (''organization'', \<lambda>item. py_get item ''organization'' JNull),
      (''organization_url'', \<lambda>item. py_get item ''organization_url'' JNull),
      (''date_validthrough'', \<lambda>item. py_get item ''date_validthrough'' JNull),
      (''location_country'', \<lambda>item. location_field item (\<lambda>loc.
          and_then (py_item loc ''address'') (\<lambda>a. py_item a ''addressCountry''))),
      (''location_locality'', \<lambda>item. location_field item (\<lambda>loc.
          and_then (py_item loc ''address'') (\<lambda>a. py_item a ''addressLocality''))),
      (''latitude'', \<lambda>item. location_field item (\<lambda>loc. py_get loc ''latitude'' JNull)),
      (''longitude'', \<lambda>item. location_field item (\<lambda>loc. py_get loc ''longitude'' JNull)),
      (''employment_type'', \<lambda>item.
          and_then (py_get item ''employment_type'' (JArr [])) (py_join '', '')),
      (''url'', \<lambda>item. py_get item ''url'' JNull),
      (''linkedin_org_employees'', \<lambda>item. py_get item ''linkedin_org_employees'' JNull),
      (''linkedin_org_size'', \<lambda>item. py_get item ''linkedin_org_size'' JNull),
      (''linkedin_org_industry'', \<lambda>item. py_get item ''linkedin_org_industry'' JNull),
      (''linkedin_org_locations'', \<lambda>item.
          and_then (py_get item ''linkedin_org_locations'' (JArr [])) (py_join '', '')),
      (''seniority'', \<lambda>item. py_get item ''seniority'' JNull)]"

fun build_dict :: "(string \<times> (json \<Rightarrow> json result)) list \<Rightarrow> json \<Rightarrow> (string \<times> json) list result" where
  "build_dict [] item = Inr []"
| "build_dict ((k, f) # fs) item =
     and_then (f item) (\<lambda>v. and_then (build_dict fs item) (\<lambda>kvs. Inr ((k, v) # kvs)))"

definition flatten_record :: "json \<Rightarrow> json result" where
  "flatten_record item = and_then (build_dict record_fields item) (\<lambda>kvs. Inr (JObj kvs))"

text \<open>
  The loop over \<^verbatim>\<open>raw_data\<close>. The handler of the inner \<^verbatim>\<open>try\<close> formats
  \<^verbatim>\<open>item.get('id')\<close> into its message before it continues; an exception raised
  there leaves the loop.
\<close>

fun flatten_loop :: "json list \<Rightarrow> json list \<Rightarrow> json list result" where
  "flatten_loop [] flattened_data = Inr flattened_data"
| "flatten_loop (item # rest) flattened_data =
     (case flatten_record item of
        Inr record \<Rightarrow> flatten_loop rest (flattened_data @ [record])
      | Inl e \<Rightarrow> and_then (py_get item ''id'' JNull) (\<lambda>shown.
                  flatten_loop rest flattened_data))"

text \<open>
  The argument is the value pulled from the inter-task channel (\<open>JNull\<close> when nothing
  was pushed), the result the list of records pushed under \<^verbatim>\<open>transformed_data\<close>.
  The data frame built from a list of records is empty exactly when the list is. The
  outer handler prints and re-raises what it caught.
\<close>

definition transform_data_healthcare :: "json \<Rightarrow> json result" where
  "transform_data_healthcare raw_data =
     try_catch (\<lambda>e. True)
       (case raw_data of
          JArr items \<Rightarrow>
            if items = []
            then Inl (ValueError ''Fetched data is empty or not in expected format (list).'')
            else and_then (flatten_loop items []) (\<lambda>flattened_data.
                   if flattened_data = []
                   then Inl (ValueError ''No valid records found after transformation.'')
                   else Inr (JArr flattened_data))
        | other \<Rightarrow> Inl (ValueError ''Fetched data is empty or not in expected format (list).''))
       (\<lambda>e. Inl e)"

text \<open>
  \<^verbatim>\<open>pd.DataFrame(records)\<close> for a list of dictionaries with the same keys. A data
  frame is the list of its rows, each the dictionary from column name to cell value
  that \<^verbatim>\<open>iterrows\<close> yields. The type of a column is inferred from its values: a
  column in which every value is a number or \<^verbatim>\<open>None\<close>, and some value is a
  number, becomes a float column, in which \<^verbatim>\<open>None\<close> is stored as NaN; every other
  column keeps its values, \<^verbatim>\<open>None\<close> included.
\<close>

fun is_number :: "json \<Rightarrow> bool" where
  "is_number (JNum n) = True"
| "is_number JNaN = True"
| "is_number x = False"

definition column_values :: "json list \<Rightarrow> string \<Rightarrow> json list" where
  "column_values records k =
     map (\<lambda>r. case r of
                 JObj kvs \<Rightarrow> (case map_of kvs k of None \<Rightarrow> JNull | Some v \<Rightarrow> v)
               | other \<Rightarrow> JNull) records"

definition float_column :: "json list \<Rightarrow> bool" where
  "float_column vs = (list_ex is_number vs \<and> list_all (\<lambda>v. is_number v \<or> v = JNull) vs)"

definition data_frame :: "json list \<Rightarrow> json list" where
  "data_frame records =
     map (\<lambda>r. case r of
                 JObj kvs \<Rightarrow>
                   JObj (map (\<lambda>kv. (fst kv,
                                     if snd kv = JNull \<and> float_column (column_values records (fst kv))
                                     then JNaN else snd kv)) kvs)
               | other \<Rightarrow> other) records"

text \<open>
  \<^verbatim>\<open>transform_data\<close> of \<^verbatim>\<open>quotes.py\<close>. The frame of a single record keeps the
  values of the record: no column of one row holds both a number and \<^verbatim>\<open>None\<close>.
  \<open>None\<close> is the function's \<^verbatim>\<open>return None\<close>.
\<close>

definition transform_data_quotes :: "json \<Rightarrow> json list option result" where
  "transform_data_quotes quote_data =
     (if \<not> truthy quote_data then Inr None else Inr (Some [quote_data]))"

section \<open>The relational sink and a database session\<close>

text \<open>
  A loader talks to the sink through one connection and one cursor of the database
  driver. The sink is outside the repository; what it does at each call that can fail
  is an input of the model. \<open>execute_fails k\<close> tells whether the \<open>k\<close>-th statement
  sent through the cursor during the invocation (counted from 0) raises, for whatever
  reason: a constraint of the table, a lost connection. \<open>rollback_fails\<close> tells
  whether \<^verbatim>\<open>rollback()\<close> raises, as it does on a connection that was lost.
  \<open>now\<close> is the value of \<^verbatim>\<open>NOW()\<close> in the transaction.
\<close>

record sink_env =
  connect_fails :: bool
  cursor_fails :: bool
  execute_fails :: "nat \<Rightarrow> bool"
  commit_fails :: bool
  rollback_fails :: bool
  now :: json

text \<open>
  The state of one invocation. \<open>table\<close> holds the committed rows, which every other
  session reads; \<open>view\<close> holds the rows as the open transaction sees them. The
  flags \<open>connection\<close> and \<open>cursor\<close> tell whether the local variable of that role is
  bound, \<open>closed\<close> whether \<^verbatim>\<open>close()\<close> was called on the connection. \<open>calls\<close>
  counts the statements sent, \<open>executed\<close> lists the parameter tuples of the
  \<^verbatim>\<open>INSERT\<close> statements sent, \<open>sequence\<close> is the last value drawn for a
  \<^verbatim>\<open>SERIAL\<close> column.
\<close>

record 'r session =
  table :: "'r list"
  "view" :: "'r list"
  sequence :: nat
  connection :: bool
  cursor :: bool
  closed :: bool
  committed :: bool
  calls :: nat
  executed :: "json list list"

definition new_session :: "'r list \<Rightarrow> nat \<Rightarrow> 'r session" where
  "new_session rows n =
     \<lparr>table = rows, view = rows, sequence = n, connection = False, cursor = False,
      closed = False, committed = False, calls = 0, executed = []\<rparr>"

type_synonym ('r, 'a) action = "'r session \<Rightarrow> 'a result \<times> 'r session"

definition skip :: "('r, unit) action" where
  "skip s = (Inr (), s)"

definition raise_exn :: "exn \<Rightarrow> ('r, 'a) action" where
  "raise_exn e s = (Inl e, s)"

text \<open>\<open>a; b\<close>\<close>

definition seq :: "('r, unit) action \<Rightarrow> ('r, 'a) action \<Rightarrow> ('r, 'a) action" where
  "seq a b s = (case a s of (Inl e, s') \<Rightarrow> (Inl e, s') | (Inr u, s') \<Rightarrow> b s')"

text \<open>The value of an expression that touches no state, handed to the rest of the block.\<close>

definition with_value :: "'a result \<Rightarrow> ('a \<Rightarrow> ('r, 'b) action) \<Rightarrow> ('r, 'b) action" where
  "with_value r f s = (case r of Inl e \<Rightarrow> (Inl e, s) | Inr v \<Rightarrow> f v s)"

text \<open>\<^verbatim>\<open>try: body except Exception as e: handler\<close>\<close>

definition try_except :: "('r, 'a) action \<Rightarrow> (exn \<Rightarrow> ('r, 'a) action) \<Rightarrow> ('r, 'a) action" where
  "try_except body handler s =
     (case body s of (Inl e, s') \<Rightarrow> handler e s' | (Inr v, s') \<Rightarrow> (Inr v, s'))"

text \<open>
  \<^verbatim>\<open>try: body finally: final\<close>: \<open>final\<close> runs on every exit of \<open>body\<close>; an
  exception raised in \<open>final\<close> replaces the outcome of \<open>body\<close>.
\<close>

definition try_finally :: "('r, 'a) action \<Rightarrow> ('r, unit) action \<Rightarrow> ('r, 'a) action" where
  "try_finally body final s =
     (case body s of
        (r, s') \<Rightarrow> (case final s' of (Inl e, s'') \<Rightarrow> (Inl e, s'') | (Inr u, s'') \<Rightarrow> (r, s'')))"

fun for_each :: "'a list \<Rightarrow> ('a \<Rightarrow> ('r, unit) action) \<Rightarrow> ('r, unit) action" where
  "for_each [] body s = (Inr (), s)"
| "for_each (x # xs) body s =
     (case body x s of (Inl e, s') \<Rightarrow> (Inl e, s') | (Inr u, s') \<Rightarrow> for_each xs body s')"

text \<open>
  The calls of the driver. A method called on a variable that was never bound raises
  \<open>UnboundLocalError\<close>. A new connection sees the committed rows; \<^verbatim>\<open>commit\<close>
  publishes the view, \<^verbatim>\<open>rollback\<close> and \<^verbatim>\<open>close\<close> discard it. Closing a
  cursor or a connection is local to the driver and does not raise.
\<close>

definition connect :: "sink_env \<Rightarrow> ('r, unit) action" where
  "connect env s =
     (if connect_fails env then (Inl DatabaseError, s)
      else (Inr (), s\<lparr>connection := True, view := table s\<rparr>))"

definition open_cursor :: "sink_env \<Rightarrow> ('r, unit) action" where
  "open_cursor env s =
     (if \<not> connection s then (Inl (UnboundLocalError ''connection''), s)
      else if cursor_fails env then (Inl DatabaseError, s)
      else (Inr (), s\<lparr>cursor := True\<rparr>))"

definition execute :: "sink_env \<Rightarrow> ('r list \<Rightarrow> 'r list) \<Rightarrow> ('r, unit) action" where
  "execute env effect s =
     (if \<not> cursor s then (Inl (UnboundLocalError ''cursor''), s)
      else if execute_fails env (calls s) then (Inl DatabaseError, s\<lparr>calls := Suc (calls s)\<rparr>)
      else (Inr (), s\<lparr>calls := Suc (calls s), view := effect (view s)\<rparr>))"

definition commit :: "sink_env \<Rightarrow> ('r, unit) action" where
  "commit env s =
     (if \<not> connection s then (Inl (UnboundLocalError ''connection''), s)
      else if commit_fails env then (Inl DatabaseError, s)
      else (Inr (), s\<lparr>table := view s, committed := True\<rparr>))"

definition rollback :: "sink_env \<Rightarrow> ('r, unit) action" where
  "rollback env s =
     (if \<not> connection s then (Inl (UnboundLocalError ''connection''), s)
      else if rollback_fails env then (Inl DatabaseError, s)
      else (Inr (), s\<lparr>view := table s\<rparr>))"

definition close_cursor :: "('r, unit) action" where
  "close_cursor s =
     (if \<not> cursor s then (Inl (UnboundLocalError ''cursor''), s) else (Inr (), s))"

definition close_connection :: "('r, unit) action" where
  "close_connection s =
     (if \<not> connection s then (Inl (UnboundLocalError ''connection''), s)
      else (Inr (), s\<lparr>closed := True, view := table s\<rparr>))"

text \<open>The parameter tuple of an \<^verbatim>\<open>INSERT\<close> is recorded when the statement is sent.\<close>

definition sent :: "json list \<Rightarrow> ('r, unit) action" where
  "sent params s = (Inr (), s\<lparr>executed := executed s @ [params]\<rparr>)"

text \<open>
  The connection is released when it was closed, or when none was acquired.
\<close>

definition released :: "'r session \<Rightarrow> bool" where
  "released s = (if connection s then closed s else True)"

section \<open>The loaders\<close>

subsection \<open>Keyed quotes: \<^verbatim>\<open>load_data\<close> of \<^verbatim>\<open>quotes.py\<close>\<close>

text \<open>
  The data frame handed to \<open>load_data\<close> is the list of its rows, as \<open>data_frame\<close>
  builds it: the \<open>id\<close> of a row is \<open>JNull\<close> where the frame kept
  \<^verbatim>\<open>None\<close> and \<open>JNaN\<close> where the column is a float column. The test
  \<^verbatim>\<open>row["id"] is not None\<close> holds for every value but \<^verbatim>\<open>None\<close>, NaN
  included. A row of \<^verbatim>\<open>quotes\<close> is \<open>(id, content, author, tags)\<close> and \<open>id\<close> is the primary
  key. \<^verbatim>\<open>INSERT ... ON CONFLICT (id) DO NOTHING\<close> adds the row unless a row with
  that key is visible. \<^verbatim>\<open>CREATE TABLE IF NOT EXISTS\<close> and the guarded
  \<^verbatim>\<open>ALTER TABLE\<close> change no row.
\<close>

type_synonym quote_row = "json \<times> json \<times> json \<times> json"

definition insert_on_conflict_do_nothing :: "quote_row \<Rightarrow> quote_row list \<Rightarrow> quote_row list" where
  "insert_on_conflict_do_nothing r rows =
     (if fst r \<in> set (map fst rows) then rows else rows @ [r])"

definition load_data_row :: "sink_env \<Rightarrow> json \<Rightarrow> (quote_row, unit) action" where
  "load_data_row env row =
     with_value (py_item row ''id'') (\<lambda>i.
       if i \<noteq> JNull
       then with_value (py_item row ''id'') (\<lambda>a.
            with_value (py_item row ''content'') (\<lambda>b.
            with_value (py_item row ''author'') (\<lambda>c.
            with_value (py_item row ''tags'') (\<lambda>d.
            seq (sent [a, b, c, d])
                (execute env (insert_on_conflict_do_nothing (a, b, c, d)))))))
       else skip)"

definition load_data :: "sink_env \<Rightarrow> json list option \<Rightarrow> (quote_row, unit) action" where
  "load_data env df =
     (case df of
        None \<Rightarrow> skip
      | Some rows \<Rightarrow>
          if rows = [] then skip
          else try_finally
                 (try_except
                    (seq (connect env)
                    (seq (open_cursor env)
                    (seq (execute env (\<lambda>t. t))
                    (seq (execute env (\<lambda>t. t))
                    (seq (for_each rows (load_data_row env))
                         (commit env))))))
                    (\<lambda>e. rollback env))
                 (seq close_cursor close_connection))"

subsection \<open>Append-only prices: \<^verbatim>\<open>insert_into_postgres\<close> of \<^verbatim>\<open>crypto_prices.py\<close>\<close>

text \<open>
  \<^verbatim>\<open>for crypto in crypto_data\<close> iterates a list by its elements, a string by its
  characters and a dictionary by its keys; nothing else that is true can be iterated.
\<close>

fun py_iter :: "json \<Rightarrow> json list result" where
  "py_iter (JArr xs) = Inr xs"
| "py_iter (JStr s) = Inr (map (\<lambda>c. JStr [c]) s)"
| "py_iter (JObj kvs) = Inr (map (\<lambda>kv. JStr (fst kv)) kvs)"
| "py_iter x = Inl TypeError"

type_synonym price_row = "json \<times> json \<times> json \<times> json"

definition insert_price :: "sink_env \<Rightarrow> json \<Rightarrow> (price_row, unit) action" where
  "insert_price env crypto =
     with_value (py_item crypto ''symbol'') (\<lambda>a.
     with_value (py_item crypto ''price_usd'') (\<lambda>b.
     with_value (py_item crypto ''change_24h'') (\<lambda>c.
     seq (sent [a, b, c])
         (execute env (\<lambda>rows. rows @ [(a, b, c, now env)])))))"

definition insert_into_postgres :: "sink_env \<Rightarrow> json \<Rightarrow> (price_row, unit) action" where
  "insert_into_postgres env crypto_data =
     (if \<not> truthy crypto_data then raise_exn (ValueError ''No data received from fetch task'')
      else seq (connect env)
          (seq (open_cursor env)
          (seq (with_value (py_iter crypto_data) (\<lambda>items. for_each items (insert_price env)))
          (seq (commit env)
          (seq close_cursor
               close_connection)))))"

subsection \<open>Surrogate key: \<^verbatim>\<open>load_to_postgres\<close> of \<^verbatim>\<open>self_confidence.py\<close>\<close>

text \<open>
  A row of \<^verbatim>\<open>self_confidence\<close> is \<open>(id, quote, author, type)\<close>; \<open>id\<close> is drawn
  from the sequence of the \<^verbatim>\<open>SERIAL\<close> column, which never goes back.
\<close>

type_synonym confidence_row = "nat \<times> json \<times> json \<times> json"

definition insert_serial :: "json \<times> json \<times> json \<Rightarrow> (confidence_row, unit) action" where
  "insert_serial p s =
     (Inr (), s\<lparr>sequence := Suc (sequence s), view := view s @ [(Suc (sequence s), p)]\<rparr>)"

definition execute_serial :: "sink_env \<Rightarrow> json \<times> json \<times> json \<Rightarrow> (confidence_row, unit) action" where
  "execute_serial env p s =
     (if \<not> cursor s then (Inl (UnboundLocalError ''cursor''), s)
      else if execute_fails env (calls s) then (Inl DatabaseError, s\<lparr>calls := Suc (calls s)\<rparr>)
      else insert_serial p (s\<lparr>calls := Suc (calls s)\<rparr>))"

definition load_to_postgres_self_confidence :: "sink_env \<Rightarrow> json \<Rightarrow> (confidence_row, unit) action" where
  "load_to_postgres_self_confidence env data =
     seq (connect env)
    (seq (open_cursor env)
    (seq (execute env (\<lambda>t. t))
    (seq (with_value (py_item data ''quote'') (\<lambda>a.
          with_value (py_item data ''author'') (\<lambda>b.
          with_value (py_item data ''type'') (\<lambda>c.
          seq (sent [a, b, c]) (execute_serial env (a, b, c))))))
    (seq (commit env)
    (seq close_cursor
         close_connection)))))"

subsection \<open>Job listings: \<^verbatim>\<open>load_to_postgres\<close> of \<^verbatim>\<open>healthcare.py\<close>\<close>

text \<open>
  The argument is the value pulled from the inter-task channel: the list of records
  pushed by the transformer, or \<open>JNull\<close>. \<^verbatim>\<open>pd.read_json\<close> raises on anything
  that is not a list of records; each tuple of \<^verbatim>\<open>data_tuples\<close> holds the values
  of one record in column order. \<^verbatim>\<open>execute_batch\<close> sends one
  \<^verbatim>\<open>INSERT\<close> for each tuple, in order, in pages; here each is one statement.
\<close>

type_synonym job_row = "json list"

fun record_values :: "json \<Rightarrow> json list option" where
  "record_values (JObj kvs) = Some (map snd kvs)"
| "record_values x = None"

definition read_json :: "json \<Rightarrow> json list list result" where
  "read_json transformed_data =
     (case transformed_data of
        JArr records \<Rightarrow>
          if list_all (\<lambda>r. record_values r \<noteq> None) records
          then Inr (map (\<lambda>r. the (record_values r)) records)
          else Inl (ValueError ''read_json'')
      | other \<Rightarrow> Inl (ValueError ''read_json''))"

definition execute_batch :: "sink_env \<Rightarrow> json list list \<Rightarrow> (job_row, unit) action" where
  "execute_batch env data_tuples =
     for_each data_tuples (\<lambda>t. seq (sent t) (execute env (\<lambda>rows. rows @ [t])))"

definition load_to_postgres_healthcare :: "sink_env \<Rightarrow> json \<Rightarrow> (job_row, unit) action" where
  "load_to_postgres_healthcare env transformed_data =
     try_finally
       (try_except
          (with_value (read_json transformed_data) (\<lambda>data_tuples.
           seq (connect env)
          (seq (open_cursor env)
          (seq (execute_batch env data_tuples)
               (commit env)))))
          (\<lambda>e. seq (rollback env) (raise_exn e)))
       (seq close_cursor close_connection)"

section \<open>The task graph of the crypto price pipeline\<close>

text \<open>
  \<^verbatim>\<open>crypto_prices.py\<close> declares four tasks, each an operator around a callable,
  the edges between them, and one retry for every task (\<^verbatim>\<open>default_args\<close>).
  In a run, the callable of the gate is \<open>check_send_time\<close> on the context of the run;
  the three other callables reach the network, the sink and the mail transport, and
  whether an attempt of one of them raises is an input of the model.
\<close>

datatype operator = PythonOperator | ShortCircuitOperator

record run =
  task_context :: exec_world
  action_raises :: "string \<Rightarrow> nat \<Rightarrow> bool"

record task =
  task_id :: string
  operator :: operator
  python_callable :: "run \<Rightarrow> nat \<Rightarrow> json result"

definition external_action :: "string \<Rightarrow> run \<Rightarrow> nat \<Rightarrow> json result" where
  "external_action name r attempt =
     (if action_raises r name attempt then Inl (ValueError name) else Inr JNull)"

definition gate_action :: "run \<Rightarrow> nat \<Rightarrow> json result" where
  "gate_action r attempt = and_then (check_send_time (task_context r)) (\<lambda>b. Inr (JBool b))"

definition fetch_task :: task where
  "fetch_task = \<lparr>task_id = ''fetch_crypto_prices'', operator = PythonOperator,
                  python_callable = external_action ''fetch_crypto_prices''\<rparr>"

definition insert_task :: task where
  "insert_task = \<lparr>task_id = ''insert_into_postgres'', operator = PythonOperator,
                   python_callable = external_action ''insert_into_postgres''\<rparr>"

definition check_time_task :: task where
  "check_time_task = \<lparr>task_id = ''check_send_time'', operator = ShortCircuitOperator,
                       python_callable = gate_action\<rparr>"

definition send_email_task :: task where
  "send_email_task = \<lparr>task_id = ''send_email'', operator = PythonOperator,
                       python_callable = external_action ''send_email''\<rparr>"

definition crypto_price_dag :: "task list" where
  "crypto_price_dag = [fetch_task, insert_task, check_time_task, send_email_task]"

text \<open>
  \<^verbatim>\<open>fetch_task >> [insert_task, check_time_task]\<close>,
  \<^verbatim>\<open>insert_task >> check_time_task\<close>, \<^verbatim>\<open>check_time_task >> send_email_task\<close>.
\<close>

definition crypto_price_edges :: "(string \<times> string) list" where
  "crypto_price_edges =
     [(''fetch_crypto_prices'', ''insert_into_postgres''),
      (''fetch_crypto_prices'', ''check_send_time''),
      (''insert_into_postgres'', ''check_send_time''),
      (''check_send_time'', ''send_email'')]"

definition retries :: nat where
  "retries = 1"

section \<open>The executor of a task graph\<close>

text \<open>
  Modelled from the spec: the executor of the task graph (the scheduler that runs the
  tasks of a run) is not among the sources. Section 4.6 of the specification gives the
  states of a task and its transitions: \<open>Pending\<close>, \<open>Running\<close>, then \<open>Succeeded\<close>
  or \<open>Failed\<close>, with re-entry from \<open>Failed\<close> up to the retry count; a task runs only
  when every upstream task has succeeded, and goes to \<open>Skipped\<close> without running when
  an upstream task is terminally failed or skipped. Section 4.5 adds that a gate which
  returns false makes the tasks downstream of it skipped. Tasks are taken in the order
  of their declaration, which follows the edges.

  \<open>attempts\<close> performs the attempts of one task: \<open>left\<close> retries remain and \<open>n\<close>
  is the number of the attempt; it returns the final outcome and the number of attempts
  made.
\<close>

datatype task_state = Pending | Running | Succeeded | Failed | Skipped

record run_state =
  states :: "string \<Rightarrow> task_state"
  short_circuited :: "string list"
  attempts_log :: "string list"

fun attempts :: "(nat \<Rightarrow> json result) \<Rightarrow> nat \<Rightarrow> nat \<Rightarrow> json result \<times> nat" where
  "attempts act 0 n = (act n, Suc n)"
| "attempts act (Suc left) n =
     (case act n of
        Inl e \<Rightarrow> attempts act left (Suc n)
      | Inr v \<Rightarrow> (Inr v, Suc n))"

definition upstream :: "(string \<times> string) list \<Rightarrow> string \<Rightarrow> string list" where
  "upstream edges t = map fst (filter (\<lambda>e. snd e = t) edges)"

definition run_task :: "run \<Rightarrow> (string \<times> string) list \<Rightarrow> run_state \<Rightarrow> task \<Rightarrow> run_state" where
  "run_task r edges st t =
     (let ups = upstream edges (task_id t) in
      if list_ex (\<lambda>u. states st u = Failed \<or> states st u = Skipped
                        \<or> u \<in> set (short_circuited st)) ups
      then st\<lparr>states := (states st)(task_id t := Skipped)\<rparr>
      else if list_all (\<lambda>u. states st u = Succeeded) ups
      then (case attempts (python_callable t r) retries 0 of
              (Inl e, n) \<Rightarrow>
                st\<lparr>states := (states st)(task_id t := Failed),
                   attempts_log := attempts_log st @ replicate n (task_id t)\<rparr>
            | (Inr v, n) \<Rightarrow>
                st\<lparr>states := (states st)(task_id t := Succeeded),
                   short_circuited :=
                     (if operator t = ShortCircuitOperator \<and> \<not> truthy v
                      then task_id t # short_circuited st else short_circuited st),
                   attempts_log := attempts_log st @ replicate n (task_id t)\<rparr>)
      else st)"

definition execute_dag :: "run \<Rightarrow> task list \<Rightarrow> (string \<times> string) list \<Rightarrow> run_state" where
  "execute_dag r tasks edges =
     foldl (run_task r edges)
       \<lparr>states = (\<lambda>t. Pending), short_circuited = [], attempts_log = []\<rparr> tasks"

definition terminal :: "task_state \<Rightarrow> bool" where
  "terminal q = (q = Succeeded \<or> q = Failed \<or> q = Skipped)"

text \<open>
  An example run at logical time 07:00 whose first attempt to insert fails.
\<close>

definition run_at_seven :: run where
  "run_at_seven =
     \<lparr>task_context = \<lparr>wall_clock = morning, kwargs = [''logical_date'' \<mapsto> DateTime seven]\<rparr>,
      action_raises = (\<lambda>t n. t = ''insert_into_postgres'' \<and> n = 0)\<rparr>"

section \<open>Notions used to state the properties of fetchers and transformers\<close>

text \<open>
  A request fails when no reply arrives, when the status is a client or server error,
  or when the body is not JSON.
\<close>

definition request_fails :: "http_reply \<Rightarrow> bool" where
  "request_fails reply =
     (case reply of
        NoReply \<Rightarrow> True
      | Reply status body \<Rightarrow> (400 \<le> status \<and> status < 600) \<or> body = None)"

text \<open>
  The keys that \<open>fetch_crypto_prices\<close> reads: the entry of each of the three coins
  is an object with a price and a change.
\<close>

definition has_coin :: "json \<Rightarrow> string \<Rightarrow> bool" where
  "has_coin data coin =
     (case data of
        JObj kvs \<Rightarrow>
          (case map_of kvs coin of
             Some (JObj c) \<Rightarrow> map_of c ''usd'' \<noteq> None \<and> map_of c ''usd_24h_change'' \<noteq> None
           | other \<Rightarrow> False)
      | other \<Rightarrow> False)"

definition required_keys :: "json \<Rightarrow> bool" where
  "required_keys data =
     (has_coin data ''bitcoin'' \<and> has_coin data ''ethereum'' \<and> has_coin data ''binancecoin'')"

fun is_object :: "json \<Rightarrow> bool" where
  "is_object (JObj kvs) = True"
| "is_object x = False"

text \<open>
  A record is malformed when building its flat form raises; \<open>kept\<close> lists the flat
  forms of the others, in their order.
\<close>

definition kept :: "json list \<Rightarrow> json list" where
  "kept items =
     concat (map (\<lambda>item. case flatten_record item of Inr r \<Rightarrow> [r] | Inl e \<Rightarrow> []) items)"

definition dict_get :: "(string \<times> json) list \<Rightarrow> string \<Rightarrow> json \<Rightarrow> json" where
  "dict_get kvs k d = (case map_of kvs k of None \<Rightarrow> d | Some v \<Rightarrow> v)"

text \<open>
  Example inputs: a reply of the price API; a job listing without locations, one whose
  first location has no address, and one whose first location has an address and no
  coordinates; the flat form of the first.
\<close>

definition quoted :: "rat \<Rightarrow> rat \<Rightarrow> json" where
  "quoted price change = JObj [(''usd'', JNum price), (''usd_24h_change'', JNum change)]"

definition prices_reply :: http_reply where
  "prices_reply =
     Reply 200 (Some (JObj [(''bitcoin'', quoted 50000 1), (''ethereum'', quoted 3000 2),
                            (''binancecoin'', quoted 600 3)]))"

definition job1 :: json where
  "job1 = JObj [(''id'', JNum 1), (''title'', JStr ''Healthcare Assistant'')]"

definition job2 :: json where
  "job2 = JObj [(''id'', JNum 2), (''locations_raw'', JArr [JObj [(''latitude'', JNum 51)]])]"

definition job3 :: json where
  "job3 = JObj [(''id'', JNum 3),
                (''locations_raw'',
                 JArr [JObj [(''address'', JObj [(''addressCountry'', JStr ''GB''),
                                                (''addressLocality'', JStr ''Leeds'')])]])]"

definition record1 :: json where
  "record1 = JObj
     [(''id'', JNum 1), (''date_posted'', JNull), (''title'', JStr ''Healthcare Assistant''),
      (''organization'', JNull), (''organization_url'', JNull), (''date_validthrough'', JNull),
      (''location_country'', JNull), (''location_locality'', JNull), (''latitude'', JNull),
      (''longitude'', JNull), (''employment_type'', JStr []), (''url'', JNull),
      (''linkedin_org_employees'', JNull), (''linkedin_org_size'', JNull),
      (''linkedin_org_industry'', JNull), (''linkedin_org_locations'', JStr []),
      (''seniority'', JNull)]"

section \<open>Notions used to state the properties of the loaders\<close>

text \<open>The sink is reliable when none of its calls raises.\<close>

definition reliable :: "sink_env \<Rightarrow> bool" where
  "reliable env =
     (\<not> connect_fails env \<and> \<not> cursor_fails env \<and> (\<forall>k. \<not> execute_fails env k)
      \<and> \<not> commit_fails env)"

text \<open>
  The four columns that \<open>load_data\<close> reads from a row of the frame, when the row has
  them; the rows of a frame whose \<open>id\<close> is not \<^verbatim>\<open>None\<close>; the parameter tuple
  of a row.
\<close>

definition quote_columns :: "json \<Rightarrow> quote_row option" where
  "quote_columns row =
     (case (py_item row ''id'', py_item row ''content'', py_item row ''author'', py_item row ''tags'') of
        (Inr a, Inr b, Inr c, Inr d) \<Rightarrow> Some (a, b, c, d)
      | other \<Rightarrow> None)"

definition keyed :: "json list \<Rightarrow> quote_row list" where
  "keyed rows = filter (\<lambda>q. fst q \<noteq> JNull) (map (\<lambda>row. the (quote_columns row)) rows)"

definition quote_params :: "quote_row \<Rightarrow> json list" where
  "quote_params q = (case q of (a, b, c, d) \<Rightarrow> [a, b, c, d])"

text \<open>
  Examples: a reliable sink, a quote with an identifier and one without, the row that
  the second becomes in a frame built from both, and a sink whose fourth statement
  raises.
\<close>

definition ok_env :: sink_env where
  "ok_env = \<lparr>connect_fails = False, cursor_fails = False, execute_fails = (\<lambda>k. False),
             commit_fails = False, rollback_fails = False,
             now = JStr ''2025-04-08 07:00:00''\<rparr>"

definition quote42 :: json where
  "quote42 = JObj [(''id'', JNum 42), (''content'', JStr ''Stay''), (''author'', JStr ''A''),
                   (''tags'', JStr [])]"

definition quote_without_id :: json where
  "quote_without_id = JObj [(''id'', JNull), (''content'', JStr ''Go''),
                            (''author'', JStr ''Unknown''), (''tags'', JStr [])]"

text \<open>
  The three columns that \<open>insert_price\<close> reads from a record, when the record has
  them; the row and the parameter tuple they give; the three data values of a stored
  row.
\<close>

definition price_columns :: "json \<Rightarrow> (json \<times> json \<times> json) option" where
  "price_columns crypto =
     (case (py_item crypto ''symbol'', py_item crypto ''price_usd'', py_item crypto ''change_24h'') of
        (Inr a, Inr b, Inr c) \<Rightarrow> Some (a, b, c)
      | other \<Rightarrow> None)"

definition price_row :: "sink_env \<Rightarrow> json \<Rightarrow> price_row" where
  "price_row env crypto = (case the (price_columns crypto) of (a, b, c) \<Rightarrow> (a, b, c, now env))"

definition price_params :: "json \<Rightarrow> json list" where
  "price_params crypto = (case the (price_columns crypto) of (a, b, c) \<Rightarrow> [a, b, c])"

definition values_of :: "price_row \<Rightarrow> json list" where
  "values_of r = (case r of (a, b, c, t) \<Rightarrow> [a, b, c])"

text \<open>
  Relations between the states before and after a part of an invocation:
  \<open>undisturbed\<close> when nothing was committed and neither the connection nor the cursor
  changed hands, \<open>accepted\<close> when no statement sent in between raised. \<open>no_failure\<close>
  says that no call made up to the state raised.
\<close>

definition undisturbed :: "'r session \<Rightarrow> 'r session \<Rightarrow> bool" where
  "undisturbed s s' =
     (table s' = table s \<and> committed s' = committed s \<and> connection s' = connection s
      \<and> cursor s' = cursor s \<and> closed s' = closed s \<and> calls s \<le> calls s')"

definition accepted :: "sink_env \<Rightarrow> 'r session \<Rightarrow> 'r session \<Rightarrow> bool" where
  "accepted env s s' = (\<forall>k. calls s \<le> k \<and> k < calls s' \<longrightarrow> \<not> execute_fails env k)"

definition no_failure :: "sink_env \<Rightarrow> 'r session \<Rightarrow> bool" where
  "no_failure env s =
     (\<not> connect_fails env \<and> \<not> cursor_fails env \<and> (\<forall>k. k < calls s \<longrightarrow> \<not> execute_fails env k)
      \<and> \<not> commit_fails env)"

text \<open>
  Examples: two price records, a self-confidence quote, and five sinks: one whose
  second statement raises, one whose third statement raises, one that is reliable at a
  later time, one whose commit raises, and one whose connection is lost after two
  statements, so that every later call raises, the rollback included.
\<close>

definition btc :: json where
  "btc = JObj [(''symbol'', JStr ''BTC''), (''price_usd'', JNum (5000012 / 100)),
               (''change_24h'', JNum (123 / 100))]"

definition eth :: json where
  "eth = JObj [(''symbol'', JStr ''ETH''), (''price_usd'', JNum 3000), (''change_24h'', JNum 2)]"

definition confidence_quote :: json where
  "confidence_quote = JObj [(''quote'', JStr ''Believe''), (''author'', JStr ''B''),
                            (''type'', JStr ''selfconfidence'')]"

definition quote_nan :: json where
  "quote_nan = JObj [(''id'', JNaN), (''content'', JStr ''Go''),
                     (''author'', JStr ''Unknown''), (''tags'', JStr [])]"

definition fourth_fails :: sink_env where
  "fourth_fails = ok_env\<lparr>execute_fails := (\<lambda>k. k = 3)\<rparr>"

definition second_fails :: sink_env where
  "second_fails = ok_env\<lparr>execute_fails := (\<lambda>k. k = 1)\<rparr>"

definition third_fails :: sink_env where
  "third_fails = ok_env\<lparr>execute_fails := (\<lambda>k. k = 2)\<rparr>"

definition later_env :: sink_env where
  "later_env = ok_env\<lparr>now := JStr ''2025-04-08 08:00:00''\<rparr>"

definition commit_fails_env :: sink_env where
  "commit_fails_env = ok_env\<lparr>commit_fails := True\<rparr>"

definition lost_connection :: sink_env where
  "lost_connection =
     ok_env\<lparr>execute_fails := (\<lambda>k. 2 \<le> k), commit_fails := True, rollback_fails := True\<rparr>"

section \<open>Properties of the gate\<close>

text \<open>
  C5. Gate determinism: two executions that receive the same logical timestamp in their
  task context return the same result, whatever the wall clock shows at either
  execution; when the logical timestamp is a date and time the result is the boolean
  "its hour is 8".
\<close>

theorem check_send_time_deterministic:
  "kwargs w1 ''logical_date'' = kwargs w2 ''logical_date'' \<Longrightarrow>
     check_send_time w1 = check_send_time w2 \<and>
     (\<forall>d. kwargs w1 ''logical_date'' = Some (DateTime d) \<longrightarrow>
          check_send_time w1 = Inr (hour d = 8))"
  by (simp add: check_send_time_def and_then_def)

theorem check_send_time_deterministic_witness:
  "check_send_time \<lparr>wall_clock = morning, kwargs = [''logical_date'' \<mapsto> DateTime seven]\<rparr>
     = check_send_time \<lparr>wall_clock = night, kwargs = [''logical_date'' \<mapsto> DateTime seven]\<rparr>
   \<and> check_send_time \<lparr>wall_clock = morning, kwargs = [''logical_date'' \<mapsto> DateTime seven]\<rparr>
     = Inr False"
proof -
  let ?w1 = "\<lparr>wall_clock = morning, kwargs = [''logical_date'' \<mapsto> DateTime seven]\<rparr>"
  let ?w2 = "\<lparr>wall_clock = night, kwargs = [''logical_date'' \<mapsto> DateTime seven]\<rparr>"
  have same: "kwargs ?w1 ''logical_date'' = kwargs ?w2 ''logical_date''"
    by simp
  have at: "kwargs ?w1 ''logical_date'' = Some (DateTime seven)"
    by simp
  from check_send_time_deterministic [OF same] at
  have "check_send_time ?w1 = check_send_time ?w2"
    and "check_send_time ?w1 = Inr (hour seven = 8)"
    by blast+
  then show ?thesis
    by (simp add: seven_def)
qed

section \<open>Properties of the task graph\<close>

lemma run_task_frame:
  "x \<noteq> task_id t \<Longrightarrow> states (run_task r edges st t) x = states st x"
  by (simp add: run_task_def Let_def split: prod.splits sum.splits)

lemma run_task_log:
  "set (attempts_log (run_task r edges st t)) \<subseteq> set (attempts_log st) \<union> {task_id t}"
  by (auto simp: run_task_def Let_def split: prod.splits sum.splits)

lemma run_task_short_circuited_mono:
  "set (short_circuited st) \<subseteq> set (short_circuited (run_task r edges st t))"
  by (auto simp: run_task_def Let_def split: prod.splits sum.splits)

lemma run_task_terminal:
  assumes "list_all (\<lambda>u. terminal (states st u)) (upstream edges (task_id t))"
  shows "terminal (states (run_task r edges st t) (task_id t))"
proof (cases "list_ex (\<lambda>u. states st u = Failed \<or> states st u = Skipped
                        \<or> u \<in> set (short_circuited st)) (upstream edges (task_id t))")
  case True
  then show ?thesis by (simp add: run_task_def Let_def terminal_def)
next
  case False
  with assms have "list_all (\<lambda>u. states st u = Succeeded) (upstream edges (task_id t))"
    by (auto simp: list_all_iff list_ex_iff terminal_def)
  with False show ?thesis
    by (simp add: run_task_def Let_def terminal_def split: prod.splits sum.splits)
qed

lemma run_task_blocked:
  assumes "u \<in> set (upstream edges (task_id t))"
    and "states st u = Failed \<or> states st u = Skipped \<or> u \<in> set (short_circuited st)"
  shows "states (run_task r edges st t) (task_id t) = Skipped"
    and "attempts_log (run_task r edges st t) = attempts_log st"
  using assms by (auto simp: run_task_def Let_def list_ex_iff)

lemma attempts_value:
  "attempts act left n = (Inr v, k) \<Longrightarrow> \<exists>m. act m = Inr v"
  by (induction left arbitrary: n) (auto split: sum.splits)

lemma run_task_gate_false:
  assumes gate: "operator t = ShortCircuitOperator"
    and false: "\<And>n. python_callable t r n = Inr (JBool False)"
    and before: "states st (task_id t) = Pending"
    and after: "states (run_task r edges st t) (task_id t) = Succeeded"
  shows "task_id t \<in> set (short_circuited (run_task r edges st t))"
proof -
  obtain res k where a: "attempts (python_callable t r) retries 0 = (res, k)"
    by (cases "attempts (python_callable t r) retries 0")
  show ?thesis
  proof (cases res)
    case (Inl e)
    with a before after show ?thesis
      by (simp add: run_task_def Let_def split: if_splits)
  next
    case (Inr v)
    with a have "\<exists>m. python_callable t r m = Inr v"
      using attempts_value by blast
    with false have "v = JBool False" by auto
    with a Inr gate before after show ?thesis
      by (simp add: run_task_def Let_def split: if_splits)
  qed
qed

text \<open>
  C6. In every run of the crypto price pipeline whose logical hour is not 8, the gate
  \<open>check_send_time\<close> returns false and the notification task \<open>send_email\<close> ends
  in the state \<open>Skipped\<close> (so neither run nor failed), and no attempt of it, first or
  retried, is ever made, whatever the other tasks of the run do.
\<close>
theorem gate_false_skips_send_email:
  assumes date: "kwargs (task_context r) ''logical_date'' = Some (DateTime d)"
    and hour: "hour d \<noteq> 8"
  shows "states (execute_dag r crypto_price_dag crypto_price_edges) ''send_email'' = Skipped \<and>
         ''send_email'' \<notin> set (attempts_log (execute_dag r crypto_price_dag crypto_price_edges))"
proof -
  let ?E = crypto_price_edges
  let ?s0 = "\<lparr>states = (\<lambda>t. Pending), short_circuited = [], attempts_log = []\<rparr>"
  let ?s1 = "run_task r ?E ?s0 fetch_task"
  let ?s2 = "run_task r ?E ?s1 insert_task"
  let ?s3 = "run_task r ?E ?s2 check_time_task"
  let ?s4 = "run_task r ?E ?s3 send_email_task"
  have run: "execute_dag r crypto_price_dag ?E = ?s4"
    by (simp add: execute_dag_def crypto_price_dag_def)
  have ids: "task_id fetch_task = ''fetch_crypto_prices''"
    "task_id insert_task = ''insert_into_postgres''"
    "task_id check_time_task = ''check_send_time''"
    "task_id send_email_task = ''send_email''"
    by (simp_all add: fetch_task_def insert_task_def check_time_task_def send_email_task_def)
  have ups: "upstream ?E ''fetch_crypto_prices'' = []"
    "upstream ?E ''insert_into_postgres'' = [''fetch_crypto_prices'']"
    "upstream ?E ''check_send_time'' = [''fetch_crypto_prices'', ''insert_into_postgres'']"
    "upstream ?E ''send_email'' = [''check_send_time'']"
    by (simp_all add: upstream_def crypto_price_edges_def)
  have t1: "terminal (states ?s1 ''fetch_crypto_prices'')"
    using run_task_terminal [of ?s0 ?E fetch_task r] by (simp add: ids ups)
  have t2f: "terminal (states ?s2 ''fetch_crypto_prices'')"
    using t1 run_task_frame [of "''fetch_crypto_prices''" insert_task r ?E ?s1]
    by (simp add: ids)
  have t2: "terminal (states ?s2 ''insert_into_postgres'')"
    using run_task_terminal [of ?s1 ?E insert_task r] t1 by (simp add: ids ups)
  have t3: "terminal (states ?s3 ''check_send_time'')"
    using run_task_terminal [of ?s2 ?E check_time_task r] t2 t2f by (simp add: ids ups)
  have p0: "states ?s0 ''check_send_time'' = Pending" by simp
  have p1: "states ?s1 ''check_send_time'' = Pending"
    using run_task_frame [of "''check_send_time''" fetch_task r ?E ?s0] by (simp add: ids)
  have p2: "states ?s2 ''check_send_time'' = Pending"
    using p1 run_task_frame [of "''check_send_time''" insert_task r ?E ?s1] by (simp add: ids)
  have gate: "\<And>n. python_callable check_time_task r n = Inr (JBool False)"
    using date hour
    by (simp add: check_time_task_def gate_action_def check_send_time_def and_then_def)
  have closed: "states ?s3 ''check_send_time'' = Succeeded \<Longrightarrow>
                  ''check_send_time'' \<in> set (short_circuited ?s3)"
    using run_task_gate_false [of check_time_task r ?s2 ?E] gate p2
    by (simp add: ids check_time_task_def)
  have blocked: "states ?s3 ''check_send_time'' = Failed \<or> states ?s3 ''check_send_time'' = Skipped
                  \<or> ''check_send_time'' \<in> set (short_circuited ?s3)"
    using t3 closed by (auto simp: terminal_def)
  have up: "''check_send_time'' \<in> set (upstream ?E (task_id send_email_task))"
    by (simp add: ids ups)
  have skipped: "states ?s4 ''send_email'' = Skipped"
    using run_task_blocked(1) [OF up blocked, of r] by (simp add: ids)
  have same: "attempts_log ?s4 = attempts_log ?s3"
    using run_task_blocked(2) [OF up blocked, of r] .
  have l1: "''send_email'' \<notin> set (attempts_log ?s1)"
    using run_task_log [of r ?E ?s0 fetch_task] by (auto simp: ids)
  have l2: "''send_email'' \<notin> set (attempts_log ?s2)"
    using run_task_log [of r ?E ?s1 insert_task] l1 by (auto simp: ids)
  have l3: "''send_email'' \<notin> set (attempts_log ?s3)"
    using run_task_log [of r ?E ?s2 check_time_task] l2 by (auto simp: ids)
  from skipped same l3 run show ?thesis by simp
qed

theorem gate_false_skips_send_email_witness:
  "states (execute_dag run_at_seven crypto_price_dag crypto_price_edges) ''send_email'' = Skipped \<and>
   ''send_email'' \<notin> set (attempts_log (execute_dag run_at_seven crypto_price_dag crypto_price_edges))"
proof -
  have date: "kwargs (task_context run_at_seven) ''logical_date'' = Some (DateTime seven)"
    by (simp add: run_at_seven_def)
  have hour: "hour seven \<noteq> 8"
    by (simp add: seven_def)
  show ?thesis
    using gate_false_skips_send_email [OF date hour] .
qed

section \<open>Properties of the fetchers\<close>

lemma coin_record_returns:
  "(\<exists>r. coin_record data symbol coin = Inr r) \<longleftrightarrow> has_coin data coin"
proof (cases data)
  case (JObj kvs)
  show ?thesis
  proof (cases "map_of kvs coin")
    case None
    with JObj show ?thesis by (simp add: coin_record_def and_then_def has_coin_def)
  next
    case (Some c)
    with JObj show ?thesis
      by (cases c) (auto simp: coin_record_def and_then_def has_coin_def split: option.splits)
  qed
qed (simp_all add: coin_record_def and_then_def has_coin_def)

lemma fetch_crypto_prices_fails:
  "request_fails reply \<Longrightarrow>
     fetch_crypto_prices reply = Inl (ValueError ''Error fetching data from CoinGecko API'')"
  by (auto simp: request_fails_def fetch_crypto_prices_def try_catch_def and_then_def
        requests_get_def raise_for_status_def response_json_def split: http_reply.splits)

lemma fetch_quote_fails:
  "request_fails reply \<Longrightarrow> fetch_quote_quotes reply = Inr JNull"
  by (auto simp: request_fails_def fetch_quote_quotes_def try_catch_def and_then_def
        requests_get_def raise_for_status_def response_json_def split: http_reply.splits)

lemma coin_record_not_request:
  "coin_record data symbol coin = Inl e \<Longrightarrow> \<not> is_RequestException e"
proof (cases data)
  case (JObj kvs)
  assume a: "coin_record data symbol coin = Inl e"
  show ?thesis
  proof (cases "map_of kvs coin")
    case None
    with JObj a show ?thesis by (auto simp: coin_record_def and_then_def)
  next
    case (Some c)
    with JObj a show ?thesis
      by (cases c) (auto simp: coin_record_def and_then_def split: option.splits)
  qed
qed (auto simp: coin_record_def and_then_def)

lemma fetch_crypto_prices_replied:
  assumes "\<not> (400 \<le> status \<and> status < 600)"
  shows "fetch_crypto_prices (Reply status (Some data)) =
         and_then (coin_record data ''BTC'' ''bitcoin'') (\<lambda>btc.
         and_then (coin_record data ''ETH'' ''ethereum'') (\<lambda>eth.
         and_then (coin_record data ''BNB'' ''binancecoin'') (\<lambda>bnb.
         Inr (JArr [btc, eth, bnb]))))"
proof -
  have "fetch_crypto_prices (Reply status (Some data)) =
        try_catch is_RequestException
          (and_then (coin_record data ''BTC'' ''bitcoin'') (\<lambda>btc.
           and_then (coin_record data ''ETH'' ''ethereum'') (\<lambda>eth.
           and_then (coin_record data ''BNB'' ''binancecoin'') (\<lambda>bnb.
           Inr (JArr [btc, eth, bnb])))))
          (\<lambda>e. Inl (ValueError ''Error fetching data from CoinGecko API''))"
    using assms
    by (auto simp: fetch_crypto_prices_def requests_get_def raise_for_status_def
          response_json_def and_then_def)
  then show ?thesis
    by (auto simp: try_catch_def and_then_def split: sum.splits dest: coin_record_not_request)
qed

lemma fetch_quote_without_keys:
  assumes "\<not> (400 \<le> status \<and> status < 600)"
    and "map_of kvs ''id'' = None" "map_of kvs ''quoteId'' = None" "map_of kvs ''content'' = None"
    and "map_of kvs ''originator'' = None" "map_of kvs ''tags'' = None"
  shows "fetch_quote_quotes (Reply status (Some (JObj kvs))) =
           Inr (JObj [(''id'', JNull), (''content'', JNull),
                      (''author'', JStr ''Unknown''), (''tags'', JStr [])])"
  using assms
  by (auto simp: fetch_quote_quotes_def requests_get_def raise_for_status_def
        response_json_def and_then_def try_catch_def)

text \<open>
  C3, as the code has it. \<open>fetch_crypto_prices\<close> returns a batch of exactly three
  records or raises: it returns exactly when a reply arrived whose status is not a
  client or server error and whose JSON body has the keys of the three coins, and a
  failed request (no reply, status 4xx or 5xx, body not JSON) raises \<open>ValueError\<close>.
  \<open>fetch_quote\<close> of \<^verbatim>\<open>quotes.py\<close> reports a failed request by returning
  \<open>None\<close>, and a JSON object without the keys it reads as a record whose \<open>id\<close> and
  \<open>content\<close> are null.
\<close>

theorem fetch_crypto_prices_batch_or_raises:
  "((\<exists>v. fetch_crypto_prices reply = Inr v) \<longleftrightarrow>
      (\<exists>status data. reply = Reply status (Some data) \<and> \<not> (400 \<le> status \<and> status < 600)
          \<and> required_keys data))
   \<and> (\<forall>v. fetch_crypto_prices reply = Inr v \<longrightarrow> (\<exists>btc eth bnb. v = JArr [btc, eth, bnb]))
   \<and> (request_fails reply \<longrightarrow>
        fetch_crypto_prices reply = Inl (ValueError ''Error fetching data from CoinGecko API'')
        \<and> fetch_quote_quotes reply = Inr JNull)
   \<and> (\<forall>status kvs. reply = Reply status (Some (JObj kvs)) \<and> \<not> (400 \<le> status \<and> status < 600)
         \<and> map_of kvs ''id'' = None \<and> map_of kvs ''quoteId'' = None
         \<and> map_of kvs ''content'' = None \<and> map_of kvs ''originator'' = None
         \<and> map_of kvs ''tags'' = None \<longrightarrow>
        fetch_quote_quotes reply =
          Inr (JObj [(''id'', JNull), (''content'', JNull),
                     (''author'', JStr ''Unknown''), (''tags'', JStr [])]))"
proof -
  have quote: "\<forall>status kvs. reply = Reply status (Some (JObj kvs)) \<and> \<not> (400 \<le> status \<and> status < 600)
         \<and> map_of kvs ''id'' = None \<and> map_of kvs ''quoteId'' = None
         \<and> map_of kvs ''content'' = None \<and> map_of kvs ''originator'' = None
         \<and> map_of kvs ''tags'' = None \<longrightarrow>
        fetch_quote_quotes reply =
          Inr (JObj [(''id'', JNull), (''content'', JNull),
                     (''author'', JStr ''Unknown''), (''tags'', JStr [])])"
    using fetch_quote_without_keys by blast
  have rest: "((\<exists>v. fetch_crypto_prices reply = Inr v) \<longleftrightarrow>
      (\<exists>status data. reply = Reply status (Some data) \<and> \<not> (400 \<le> status \<and> status < 600)
          \<and> required_keys data))
   \<and> (\<forall>v. fetch_crypto_prices reply = Inr v \<longrightarrow> (\<exists>btc eth bnb. v = JArr [btc, eth, bnb]))
   \<and> (request_fails reply \<longrightarrow>
        fetch_crypto_prices reply = Inl (ValueError ''Error fetching data from CoinGecko API'')
        \<and> fetch_quote_quotes reply = Inr JNull)"
  proof (cases "request_fails reply")
    case True
    then have "\<not> (\<exists>status data. reply = Reply status (Some data) \<and> \<not> (400 \<le> status \<and> status < 600))"
      by (auto simp: request_fails_def)
    with True show ?thesis
      by (auto simp: fetch_crypto_prices_fails fetch_quote_fails)
  next
    case False
    then obtain status data where r: "reply = Reply status (Some data)"
      and s: "\<not> (400 \<le> status \<and> status < 600)"
      by (cases reply) (auto simp: request_fails_def)
    note eq = fetch_crypto_prices_replied [OF s, of data]
    have "(\<exists>v. fetch_crypto_prices reply = Inr v) \<longleftrightarrow> required_keys data"
      unfolding r eq required_keys_def
      using coin_record_returns [of data "''BTC''" "''bitcoin''"]
        coin_record_returns [of data "''ETH''" "''ethereum''"]
        coin_record_returns [of data "''BNB''" "''binancecoin''"]
      by (auto simp: and_then_def split: sum.splits)
    moreover have "\<forall>v. fetch_crypto_prices reply = Inr v \<longrightarrow> (\<exists>btc eth bnb. v = JArr [btc, eth, bnb])"
      unfolding r eq by (auto simp: and_then_def split: sum.splits)
    ultimately show ?thesis using False r s by auto
  qed
  from rest quote show ?thesis by blast
qed

theorem fetch_crypto_prices_batch_or_raises_witness:
  "(\<exists>btc eth bnb. fetch_crypto_prices prices_reply = Inr (JArr [btc, eth, bnb]))
   \<and> fetch_crypto_prices (Reply 503 None)
       = Inl (ValueError ''Error fetching data from CoinGecko API'')
   \<and> fetch_quote_quotes (Reply 503 None) = Inr JNull
   \<and> fetch_quote_quotes (Reply 200 (Some (JObj [])))
       = Inr (JObj [(''id'', JNull), (''content'', JNull),
                    (''author'', JStr ''Unknown''), (''tags'', JStr [])])"
proof -
  have keys: "\<exists>status data. prices_reply = Reply status (Some data)
                \<and> \<not> (400 \<le> status \<and> status < 600) \<and> required_keys data"
    by (simp add: prices_reply_def required_keys_def has_coin_def quoted_def)
  have good: "\<exists>btc eth bnb. fetch_crypto_prices prices_reply = Inr (JArr [btc, eth, bnb])"
    using fetch_crypto_prices_batch_or_raises [of prices_reply] keys by blast
  have fails: "request_fails (Reply 503 None)"
    by (simp add: request_fails_def)
  have bad: "fetch_crypto_prices (Reply 503 None)
               = Inl (ValueError ''Error fetching data from CoinGecko API'')
             \<and> fetch_quote_quotes (Reply 503 None) = Inr JNull"
    using fetch_crypto_prices_batch_or_raises [of "Reply 503 None"] fails by blast
  have empty: "fetch_quote_quotes (Reply 200 (Some (JObj [])))
       = Inr (JObj [(''id'', JNull), (''content'', JNull),
                    (''author'', JStr ''Unknown''), (''tags'', JStr [])])"
    using fetch_crypto_prices_batch_or_raises [of "Reply 200 (Some (JObj []))"] by simp
  from good bad empty show ?thesis by blast
qed

text \<open>
  The claim C3 as stated fails on \<open>fetch_quote\<close> of \<^verbatim>\<open>quotes.py\<close>: with no reply
  from the network the function returns \<open>None\<close> to its caller, and a server error is
  returned the same way.
\<close>

theorem fetch_quote_returns_on_network_error:
  "fetch_quote_quotes NoReply = Inr JNull \<and> fetch_quote_quotes (Reply 500 None) = Inr JNull"
  by (simp add: fetch_quote_quotes_def requests_get_def raise_for_status_def try_catch_def
        and_then_def)

text \<open>
  \<open>fetch_quote\<close> of \<^verbatim>\<open>self_confidence.py\<close> calls neither
  \<^verbatim>\<open>raise_for_status\<close> nor checks a key: the body of a server error is pushed
  to the channel as if it were a quote.
\<close>

lemma fetch_quote_self_confidence_ignores_status:
  "fetch_quote_self_confidence (Reply 500 (Some (JObj [(''message'', JStr ''down'')])))
     = Inr (JObj [(''message'', JStr ''down'')])"
  by (simp add: fetch_quote_self_confidence_def requests_get_def response_json_def and_then_def)

section \<open>Properties of the transformers\<close>

lemma py_get_object: "is_object item \<Longrightarrow> \<exists>v. py_get item k d = Inr v"
  by (cases item) simp_all

lemma flatten_loop_objects:
  "list_all is_object items \<Longrightarrow> flatten_loop items acc = Inr (acc @ kept items)"
proof (induction items arbitrary: acc)
  case Nil
  show ?case by (simp add: kept_def)
next
  case (Cons item rest)
  then have obj: "is_object item" and rest: "list_all is_object rest" by simp_all
  show ?case
  proof (cases "flatten_record item")
    case (Inl e)
    from py_get_object [OF obj] obtain v where "py_get item ''id'' JNull = Inr v" by blast
    with Inl Cons.IH [OF rest] show ?thesis
      by (simp add: kept_def and_then_def)
  next
    case (Inr r)
    with Cons.IH [OF rest] show ?thesis
      by (simp add: kept_def)
  qed
qed

lemma kept_empty: "kept items = [] \<longleftrightarrow> list_all (\<lambda>item. isl (flatten_record item)) items"
  by (induction items) (auto simp: kept_def split: sum.splits)

lemma flatten_record_object:
  "flatten_record (JObj kvs) =
     and_then (location_field (JObj kvs) (\<lambda>loc.
          and_then (py_item loc ''address'') (\<lambda>a. py_item a ''addressCountry''))) (\<lambda>country.
     and_then (location_field (JObj kvs) (\<lambda>loc.
          and_then (py_item loc ''address'') (\<lambda>a. py_item a ''addressLocality''))) (\<lambda>locality.
     and_then (location_field (JObj kvs) (\<lambda>loc. py_get loc ''latitude'' JNull)) (\<lambda>latitude.
     and_then (location_field (JObj kvs) (\<lambda>loc. py_get loc ''longitude'' JNull)) (\<lambda>longitude.
     and_then (py_join '', '' (dict_get kvs ''employment_type'' (JArr []))) (\<lambda>employment.
     and_then (py_join '', '' (dict_get kvs ''linkedin_org_locations'' (JArr []))) (\<lambda>org_locations.
     Inr (JObj
       [(''id'', dict_get kvs ''id'' JNull),
        (''date_posted'', dict_get kvs ''date_posted'' JNull),
        (''title'', dict_get kvs ''title'' JNull),
        (''organization'', dict_get kvs ''organization'' JNull),
        (''organization_url'', dict_get kvs ''organization_url'' JNull),
        (''date_validthrough'', dict_get kvs ''date_validthrough'' JNull),
        (''location_country'', country),
        (''location_locality'', locality),
        (''latitude'', latitude),
        (''longitude'', longitude),
        (''employment_type'', employment),
        (''url'', dict_get kvs ''url'' JNull),
        (''linkedin_org_employees'', dict_get kvs ''linkedin_org_employees'' JNull),
        (''linkedin_org_size'', dict_get kvs ''linkedin_org_size'' JNull),
        (''linkedin_org_industry'', dict_get kvs ''linkedin_org_industry'' JNull),
        (''linkedin_org_locations'', org_locations),
        (''seniority'', dict_get kvs ''seniority'' JNull)])))))))"
  by (simp add: flatten_record_def record_fields_def and_then_def dict_get_def
        split: sum.splits)


lemma py_get_dict: "py_get (JObj kvs) k d = Inr (dict_get kvs k d)"
  by (simp add: dict_get_def)

lemma location_field_missing:
  "\<not> truthy (dict_get kvs ''locations_raw'' JNull) \<Longrightarrow> location_field (JObj kvs) path = Inr JNull"
  by (simp add: location_field_def and_then_def dict_get_def)

lemma location_field_first:
  "map_of kvs ''locations_raw'' = Some (JArr (loc # others)) \<Longrightarrow>
     location_field (JObj kvs) path = path loc"
  by (simp add: location_field_def and_then_def)

lemma flatten_job1: "flatten_record job1 = Inr record1"
  by (simp add: job1_def record1_def flatten_record_object location_field_def and_then_def dict_get_def)

lemma flatten_job2: "flatten_record job2 = Inl (KeyError ''address'')"
  by (simp add: job2_def flatten_record_object location_field_def and_then_def dict_get_def)

text \<open>
  C4, as the code has it. On a batch whose records are all JSON objects,
  \<open>transform_data\<close> of \<^verbatim>\<open>healthcare.py\<close> never raises because of one malformed
  record: the malformed records are left out and the others are kept in order. It
  raises \<open>ValueError\<close> exactly when the batch is empty or every record is malformed.
  \<open>transform_data\<close> of \<^verbatim>\<open>quotes.py\<close> never raises: on an absent or empty record
  it returns \<open>None\<close>, otherwise the frame of that one record.
\<close>

theorem transform_data_excludes_malformed:
  assumes "list_all is_object items"
  shows "transform_data_healthcare (JArr items) =
           (if items = []
            then Inl (ValueError ''Fetched data is empty or not in expected format (list).'')
            else if list_all (\<lambda>item. isl (flatten_record item)) items
            then Inl (ValueError ''No valid records found after transformation.'')
            else Inr (JArr (kept items)))
         \<and> transform_data_quotes q = (if truthy q then Inr (Some [q]) else Inr None)"
  using flatten_loop_objects [OF assms, of "[]"] kept_empty [of items]
  by (simp add: transform_data_healthcare_def transform_data_quotes_def try_catch_def and_then_def)

theorem transform_data_excludes_malformed_witness:
  "transform_data_healthcare (JArr [job2, job1, job2]) = Inr (JArr [record1])
   \<and> transform_data_healthcare (JArr [job2, job2])
       = Inl (ValueError ''No valid records found after transformation.'')"
proof -
  have objects: "list_all is_object [job2, job1, job2]" "list_all is_object [job2, job2]"
    by (simp_all add: job1_def job2_def)
  have k: "kept [job2, job1, job2] = [record1]"
    by (simp add: kept_def flatten_job1 flatten_job2)
  from transform_data_excludes_malformed [OF objects(1), of JNull]
    transform_data_excludes_malformed [OF objects(2), of JNull] k
  show ?thesis
    by (simp add: flatten_job1 flatten_job2)
qed

text \<open>
  The claim C4 as stated fails on \<open>transform_data\<close> of \<^verbatim>\<open>quotes.py\<close>: on the
  empty input (the \<open>None\<close> of a failed fetch, or an empty dictionary) it returns
  \<open>None\<close> and raises nothing.
\<close>

theorem transform_data_quotes_returns_on_empty:
  "transform_data_quotes JNull = Inr None \<and> transform_data_quotes (JObj []) = Inr None"
  by (simp add: transform_data_quotes_def)

text \<open>
  A record that is not a JSON object is outside the statement above: the handler of the
  inner \<^verbatim>\<open>try\<close> calls \<^verbatim>\<open>item.get('id')\<close> for its message, which raises again
  and ends the task although another record of the batch is well formed.
\<close>

lemma transform_data_non_object_record:
  "transform_data_healthcare (JArr [job1, JStr ''x'']) = Inl AttributeError"
proof -
  have "flatten_record (JStr ''x'') = Inl AttributeError"
    by (simp add: flatten_record_def record_fields_def and_then_def)
  then show ?thesis
    by (simp add: flatten_job1 transform_data_healthcare_def try_catch_def and_then_def)
qed

text \<open>
  Where the safe navigation works. In a record that is a JSON object whose two list
  fields can be joined: when \<^verbatim>\<open>locations_raw\<close> is absent, null or empty, the four
  location fields of the output record are null and the record is kept; when the first
  location is an object with an address that has a country and a locality, these are
  copied and an absent latitude or longitude of that location yields null.
\<close>

theorem missing_locations_yield_null:
  assumes emp: "py_join '', '' (dict_get kvs ''employment_type'' (JArr [])) = Inr employment"
    and org: "py_join '', '' (dict_get kvs ''linkedin_org_locations'' (JArr [])) = Inr org_locations"
  shows "(\<not> truthy (dict_get kvs ''locations_raw'' JNull) \<longrightarrow>
            (\<exists>r. flatten_record (JObj kvs) = Inr (JObj r)
               \<and> map_of r ''location_country'' = Some JNull
               \<and> map_of r ''location_locality'' = Some JNull
               \<and> map_of r ''latitude'' = Some JNull
               \<and> map_of r ''longitude'' = Some JNull
               \<and> transform_data_healthcare (JArr [JObj kvs]) = Inr (JArr [JObj r])))
       \<and> (\<forall>loc others address country locality.
            map_of kvs ''locations_raw'' = Some (JArr (JObj loc # others))
            \<and> map_of loc ''address'' = Some (JObj address)
            \<and> map_of address ''addressCountry'' = Some country
            \<and> map_of address ''addressLocality'' = Some locality \<longrightarrow>
            (\<exists>r. flatten_record (JObj kvs) = Inr (JObj r)
               \<and> map_of r ''location_country'' = Some country
               \<and> map_of r ''location_locality'' = Some locality
               \<and> map_of r ''latitude'' = Some (dict_get loc ''latitude'' JNull)
               \<and> map_of r ''longitude'' = Some (dict_get loc ''longitude'' JNull)
               \<and> transform_data_healthcare (JArr [JObj kvs]) = Inr (JArr [JObj r])))"
proof (intro conjI impI allI)
  assume missing: "\<not> truthy (dict_get kvs ''locations_raw'' JNull)"
  have rec: "\<exists>r. flatten_record (JObj kvs) = Inr (JObj r)
               \<and> map_of r ''location_country'' = Some JNull
               \<and> map_of r ''location_locality'' = Some JNull
               \<and> map_of r ''latitude'' = Some JNull
               \<and> map_of r ''longitude'' = Some JNull"
    by (simp add: flatten_record_object location_field_missing [OF missing] emp org and_then_def)
  then obtain r where r: "flatten_record (JObj kvs) = Inr (JObj r)" and
    f: "map_of r ''location_country'' = Some JNull" "map_of r ''location_locality'' = Some JNull"
       "map_of r ''latitude'' = Some JNull" "map_of r ''longitude'' = Some JNull"
    by blast
  have "transform_data_healthcare (JArr [JObj kvs]) = Inr (JArr [JObj r])"
    using r by (simp add: transform_data_healthcare_def try_catch_def and_then_def)
  with r f show "\<exists>r. flatten_record (JObj kvs) = Inr (JObj r)
               \<and> map_of r ''location_country'' = Some JNull
               \<and> map_of r ''location_locality'' = Some JNull
               \<and> map_of r ''latitude'' = Some JNull
               \<and> map_of r ''longitude'' = Some JNull
               \<and> transform_data_healthcare (JArr [JObj kvs]) = Inr (JArr [JObj r])"
    by blast
next
  fix loc others address country locality
  assume a: "map_of kvs ''locations_raw'' = Some (JArr (JObj loc # others))
            \<and> map_of loc ''address'' = Some (JObj address)
            \<and> map_of address ''addressCountry'' = Some country
            \<and> map_of address ''addressLocality'' = Some locality"
  then have first: "map_of kvs ''locations_raw'' = Some (JArr (JObj loc # others))" by simp
  have rec: "\<exists>r. flatten_record (JObj kvs) = Inr (JObj r)
               \<and> map_of r ''location_country'' = Some country
               \<and> map_of r ''location_locality'' = Some locality
               \<and> map_of r ''latitude'' = Some (dict_get loc ''latitude'' JNull)
               \<and> map_of r ''longitude'' = Some (dict_get loc ''longitude'' JNull)"
    using a
    by (simp add: flatten_record_object location_field_first [OF first] emp org and_then_def
          py_get_dict del: py_get.simps)
  then obtain r where r: "flatten_record (JObj kvs) = Inr (JObj r)" and
    f: "map_of r ''location_country'' = Some country" "map_of r ''location_locality'' = Some locality"
       "map_of r ''latitude'' = Some (dict_get loc ''latitude'' JNull)"
       "map_of r ''longitude'' = Some (dict_get loc ''longitude'' JNull)"
    by blast
  have "transform_data_healthcare (JArr [JObj kvs]) = Inr (JArr [JObj r])"
    using r by (simp add: transform_data_healthcare_def try_catch_def and_then_def)
  with r f show "\<exists>r. flatten_record (JObj kvs) = Inr (JObj r)
               \<and> map_of r ''location_country'' = Some country
               \<and> map_of r ''location_locality'' = Some locality
               \<and> map_of r ''latitude'' = Some (dict_get loc ''latitude'' JNull)
               \<and> map_of r ''longitude'' = Some (dict_get loc ''longitude'' JNull)
               \<and> transform_data_healthcare (JArr [JObj kvs]) = Inr (JArr [JObj r])"
    by blast
qed

theorem missing_locations_yield_null_witness:
  "(\<exists>r. flatten_record job1 = Inr (JObj r)
        \<and> map_of r ''location_country'' = Some JNull \<and> map_of r ''latitude'' = Some JNull
        \<and> transform_data_healthcare (JArr [job1]) = Inr (JArr [JObj r]))
   \<and> (\<exists>r. flatten_record job3 = Inr (JObj r)
        \<and> map_of r ''location_country'' = Some (JStr ''GB'')
        \<and> map_of r ''latitude'' = Some JNull
        \<and> transform_data_healthcare (JArr [job3]) = Inr (JArr [JObj r]))"
proof -
  let ?k1 = "[(''id'', JNum 1), (''title'', JStr ''Healthcare Assistant'')]"
  let ?loc = "[(''address'', JObj [(''addressCountry'', JStr ''GB''),
                                   (''addressLocality'', JStr ''Leeds'')])]"
  let ?k3 = "[(''id'', JNum 3), (''locations_raw'', JArr [JObj ?loc])]"
  have e1: "py_join '', '' (dict_get ?k1 ''employment_type'' (JArr [])) = Inr (JStr [])"
    and o1: "py_join '', '' (dict_get ?k1 ''linkedin_org_locations'' (JArr [])) = Inr (JStr [])"
    and e3: "py_join '', '' (dict_get ?k3 ''employment_type'' (JArr [])) = Inr (JStr [])"
    and o3: "py_join '', '' (dict_get ?k3 ''linkedin_org_locations'' (JArr [])) = Inr (JStr [])"
    by (simp_all add: dict_get_def)
  have absent: "\<not> truthy (dict_get ?k1 ''locations_raw'' JNull)"
    by (simp add: dict_get_def)
  have present: "map_of ?k3 ''locations_raw'' = Some (JArr (JObj ?loc # []))
            \<and> map_of ?loc ''address'' = Some (JObj [(''addressCountry'', JStr ''GB''),
                                                    (''addressLocality'', JStr ''Leeds'')])
            \<and> map_of [(''addressCountry'', JStr ''GB''), (''addressLocality'', JStr ''Leeds'')]
                 ''addressCountry'' = Some (JStr ''GB'')
            \<and> map_of [(''addressCountry'', JStr ''GB''), (''addressLocality'', JStr ''Leeds'')]
                 ''addressLocality'' = Some (JStr ''Leeds'')"
    by simp
  have lat: "dict_get ?loc ''latitude'' JNull = JNull"
    by (simp add: dict_get_def)
  from missing_locations_yield_null [OF e1 o1] absent
  have first: "\<exists>r. flatten_record job1 = Inr (JObj r)
        \<and> map_of r ''location_country'' = Some JNull \<and> map_of r ''latitude'' = Some JNull
        \<and> transform_data_healthcare (JArr [job1]) = Inr (JArr [JObj r])"
    unfolding job1_def by blast
  from missing_locations_yield_null [OF e3 o3] present
  have "\<exists>r. flatten_record job3 = Inr (JObj r)
        \<and> map_of r ''location_country'' = Some (JStr ''GB'')
        \<and> map_of r ''latitude'' = Some (dict_get ?loc ''latitude'' JNull)
        \<and> transform_data_healthcare (JArr [job3]) = Inr (JArr [JObj r])"
    unfolding job3_def by blast
  with lat have third: "\<exists>r. flatten_record job3 = Inr (JObj r)
        \<and> map_of r ''location_country'' = Some (JStr ''GB'')
        \<and> map_of r ''latitude'' = Some JNull
        \<and> transform_data_healthcare (JArr [job3]) = Inr (JArr [JObj r])"
    by simp
  from first third show ?thesis by blast
qed

text \<open>
  Where it does not. The country and the locality are read by subscript,
  \<^verbatim>\<open>item["locations_raw"][0]["address"]["addressCountry"]\<close>, under the guard that
  only tests \<^verbatim>\<open>locations_raw\<close>, while the latitude and the longitude of the same
  location are read with \<^verbatim>\<open>.get\<close>. For every record whose first location has no
  \<^verbatim>\<open>address\<close>, or an address without country or locality, building the record
  raises \<open>KeyError\<close>, and the loop leaves the record out of the output.
\<close>

lemma flatten_record_without_address:
  assumes "map_of kvs ''locations_raw'' = Some (JArr (JObj loc # others))"
    and "map_of loc ''address'' = None"
  shows "flatten_record (JObj kvs) = Inl (KeyError ''address'')"
  using assms by (simp add: flatten_record_object location_field_first and_then_def)

lemma flatten_record_without_country:
  assumes "map_of kvs ''locations_raw'' = Some (JArr (JObj loc # others))"
    and "map_of loc ''address'' = Some (JObj address)"
    and "map_of address ''addressCountry'' = None"
  shows "flatten_record (JObj kvs) = Inl (KeyError ''addressCountry'')"
  using assms by (simp add: flatten_record_object location_field_first and_then_def)

lemma flatten_record_without_locality:
  assumes "map_of kvs ''locations_raw'' = Some (JArr (JObj loc # others))"
    and "map_of loc ''address'' = Some (JObj address)"
    and "map_of address ''addressCountry'' = Some country"
    and "map_of address ''addressLocality'' = None"
  shows "flatten_record (JObj kvs) = Inl (KeyError ''addressLocality'')"
  using assms by (simp add: flatten_record_object location_field_first and_then_def)

lemma malformed_record_left_out:
  assumes "list_all is_object (before @ item # after)" and "flatten_record item = Inl e"
  shows "flatten_loop (before @ item # after) [] = Inr (kept before @ kept after)"
  using flatten_loop_objects [OF assms(1), of "[]"] assms(2) by (simp add: kept_def)

text \<open>
  C8, at an input where the code departs from it. The second of two job listings has a
  first location without the nested \<^verbatim>\<open>address\<close>: building its record raises
  \<open>KeyError\<close> instead of yielding null location fields, and the output holds the
  record of the first listing only.
\<close>

theorem missing_address_excludes_record:
  "flatten_record job2 = Inl (KeyError ''address'')
   \<and> transform_data_healthcare (JArr [job1, job2]) = Inr (JArr [record1])"
proof -
  have "py_get job2 ''id'' JNull = Inr (JNum 2)" by (simp add: job2_def)
  then show ?thesis
    by (simp add: flatten_job1 flatten_job2 transform_data_healthcare_def try_catch_def and_then_def)
qed

section \<open>Properties of the keyed loader\<close>

lemma load_data_row_ok:
  assumes "quote_columns row = Some q" "cursor s" "\<not> execute_fails env (calls s)"
  shows "load_data_row env row s =
           (if fst q \<noteq> JNull
            then (Inr (), s\<lparr>view := insert_on_conflict_do_nothing q (view s),
                            calls := Suc (calls s),
                            executed := executed s @ [quote_params q]\<rparr>)
            else (Inr (), s))"
  using assms
  by (auto simp: quote_columns_def load_data_row_def with_value_def seq_def sent_def execute_def
        skip_def quote_params_def split: sum.splits prod.splits)

lemma load_data_loop_ok:
  assumes "reliable env" "list_all (\<lambda>row. quote_columns row \<noteq> None) rows" "cursor s"
  shows "for_each rows (load_data_row env) s =
           (Inr (), s\<lparr>view := fold insert_on_conflict_do_nothing (keyed rows) (view s),
                       calls := calls s + length (keyed rows),
                       executed := executed s @ map quote_params (keyed rows)\<rparr>)"
  using assms(2,3)
proof (induction rows arbitrary: s)
  case Nil
  show ?case by (simp add: keyed_def)
next
  case (Cons row rest)
  then obtain q where q: "quote_columns row = Some q" by auto
  from Cons.prems have rest: "list_all (\<lambda>row. quote_columns row \<noteq> None) rest" by simp
  have nf: "\<not> execute_fails env (calls s)" using assms(1) by (simp add: reliable_def)
  show ?case
  proof (cases "fst q = JNull")
    case True
    with q Cons.prems(2) nf Cons.IH [OF rest Cons.prems(2)] show ?thesis
      by (simp add: load_data_row_ok keyed_def)
  next
    case False
    let ?s = "s\<lparr>view := insert_on_conflict_do_nothing q (view s),
                            calls := Suc (calls s),
                            executed := executed s @ [quote_params q]\<rparr>"
    have c: "cursor ?s" using Cons.prems(2) by simp
    from False q Cons.prems(2) nf Cons.IH [OF rest c] show ?thesis
      by (simp add: load_data_row_ok keyed_def)
  qed
qed

lemma load_data_reliable:
  assumes "reliable env" "rows \<noteq> []" "list_all (\<lambda>row. quote_columns row \<noteq> None) rows"
  shows "load_data env (Some rows) (new_session tbl n) =
           (Inr (), \<lparr>table = fold insert_on_conflict_do_nothing (keyed rows) tbl,
                     view = fold insert_on_conflict_do_nothing (keyed rows) tbl,
                     sequence = n, connection = True, cursor = True, closed = True,
                     committed = True, calls = Suc (Suc (length (keyed rows))),
                     executed = map quote_params (keyed rows)\<rparr>)"
proof -
  let ?s = "\<lparr>table = tbl, view = tbl, sequence = n, connection = True, cursor = True,
            closed = False, committed = False, calls = Suc (Suc 0), executed = []\<rparr> :: quote_row session"
  have c: "cursor ?s" by simp
  note loop = load_data_loop_ok [OF assms(1) assms(3) c]
  from assms(1,2) show ?thesis
    by (simp add: load_data_def try_finally_def try_except_def seq_def connect_def open_cursor_def
          execute_def commit_def close_cursor_def close_connection_def new_session_def
          reliable_def loop)
qed


lemma upsert_ids:
  "fst ` set (fold insert_on_conflict_do_nothing qs t) = fst ` set t \<union> fst ` set qs"
  by (induction qs arbitrary: t) (auto simp: insert_on_conflict_do_nothing_def)

lemma upsert_distinct:
  "distinct (map fst t) \<Longrightarrow> distinct (map fst (fold insert_on_conflict_do_nothing qs t))"
  by (induction qs arbitrary: t) (auto simp: insert_on_conflict_do_nothing_def)

lemma upsert_present:
  "fst ` set qs \<subseteq> fst ` set t \<Longrightarrow> fold insert_on_conflict_do_nothing qs t = t"
  by (induction qs arbitrary: t) (auto simp: insert_on_conflict_do_nothing_def)

lemma one_row_per_key:
  "distinct (map fst t) \<Longrightarrow> i \<in> fst ` set t \<Longrightarrow> length (filter (\<lambda>q. fst q = i) t) = 1"
  by (induction t) (auto simp: image_iff filter_empty_conv)

lemma load_data_no_rows:
  "load_data env (Some []) s = (Inr (), s)"
  by (simp add: load_data_def skip_def)

lemma load_data_reliable_table:
  assumes "reliable env" "list_all (\<lambda>row. quote_columns row \<noteq> None) rows"
    and "load_data env (Some rows) (new_session tbl n) = (r, s)"
  shows "r = Inr () \<and> table s = fold insert_on_conflict_do_nothing (keyed rows) tbl
         \<and> sequence s = n \<and> (rows \<noteq> [] \<longrightarrow> committed s \<and> closed s)"
proof (cases "rows = []")
  case True
  with assms(3) show ?thesis
    by (auto simp: load_data_no_rows new_session_def keyed_def)
next
  case False
  from load_data_reliable [OF assms(1) False assms(2), of tbl n] assms(3) show ?thesis
    by auto
qed

lemma reliable_ok_env: "reliable ok_env"
  by (simp add: reliable_def ok_env_def)

lemma example_columns:
  "quote_columns quote42 = Some (JNum 42, JStr ''Stay'', JStr ''A'', JStr [])"
  "quote_columns quote_without_id = Some (JNull, JStr ''Go'', JStr ''Unknown'', JStr [])"
  by (simp_all add: quote_columns_def quote42_def quote_without_id_def)

lemma example_keyed:
  "keyed [quote42, quote_without_id] = [(JNum 42, JStr ''Stay'', JStr ''A'', JStr [])]"
  by (simp add: keyed_def example_columns)

text \<open>
  C2. On a reliable sink whose table holds one row per key, loading a batch of quote
  rows and then loading the same batch again leaves the table as the first load left
  it, with exactly one row for every non-null \<open>id\<close> of the batch; both loads return
  normally and the second commits. A load all of whose identifiers are already stored
  changes nothing.
\<close>

theorem load_data_twice_one_row_per_id:
  assumes "reliable env1" and "reliable env2"
    and "list_all (\<lambda>row. quote_columns row \<noteq> None) rows"
    and "distinct (map fst tbl)"
    and "load_data env1 (Some rows) (new_session tbl n) = (r1, s1)"
    and "load_data env2 (Some rows) (new_session (table s1) (sequence s1)) = (r2, s2)"
  shows "r1 = Inr () \<and> r2 = Inr () \<and> table s2 = table s1
         \<and> (\<forall>q \<in> set (keyed rows). length (filter (\<lambda>t. fst t = fst q) (table s2)) = 1)
         \<and> (fst ` set (keyed rows) \<subseteq> fst ` set tbl \<longrightarrow> table s1 = tbl)
         \<and> (rows \<noteq> [] \<longrightarrow> committed s2)"
proof -
  let ?t1 = "fold insert_on_conflict_do_nothing (keyed rows) tbl"
  from load_data_reliable_table [OF assms(1) assms(3) assms(5)]
  have one: "r1 = Inr ()" "table s1 = ?t1" "sequence s1 = n" by simp_all
  from load_data_reliable_table [OF assms(2) assms(3) assms(6)]
  have two: "r2 = Inr ()" "table s2 = fold insert_on_conflict_do_nothing (keyed rows) (table s1)"
    "rows \<noteq> [] \<longrightarrow> committed s2" by simp_all
  have sub: "fst ` set (keyed rows) \<subseteq> fst ` set ?t1"
    by (simp add: upsert_ids)
  have same: "table s2 = table s1"
    using two(2) one(2) upsert_present [OF sub] by simp
  have d: "distinct (map fst ?t1)"
    using assms(4) by (rule upsert_distinct)
  have each: "\<forall>q \<in> set (keyed rows). length (filter (\<lambda>t. fst t = fst q) (table s2)) = 1"
  proof
    fix q assume "q \<in> set (keyed rows)"
    then have "fst q \<in> fst ` set ?t1" using sub by blast
    from one_row_per_key [OF d this] same one(2) show "length (filter (\<lambda>t. fst t = fst q) (table s2)) = 1"
      by simp
  qed
  have noop: "fst ` set (keyed rows) \<subseteq> fst ` set tbl \<longrightarrow> table s1 = tbl"
    using one(2) upsert_present by auto
  from one(1) two(1) same each noop two(3) show ?thesis by blast
qed

theorem load_data_twice_one_row_per_id_witness:
  "\<exists>s1 s2. load_data ok_env (Some [quote42, quote_without_id]) (new_session [] 0) = (Inr (), s1)
     \<and> load_data ok_env (Some [quote42, quote_without_id]) (new_session (table s1) (sequence s1))
         = (Inr (), s2)
     \<and> table s2 = table s1
     \<and> length (filter (\<lambda>t. fst t = JNum 42) (table s2)) = 1
     \<and> committed s2"
proof -
  let ?rows = "[quote42, quote_without_id]"
  obtain r1 s1 where l1: "load_data ok_env (Some ?rows) (new_session [] 0) = (r1, s1)"
    by (cases "load_data ok_env (Some ?rows) (new_session ([] :: quote_row list) 0)")
  obtain r2 s2 where l2: "load_data ok_env (Some ?rows) (new_session (table s1) (sequence s1)) = (r2, s2)"
    by (cases "load_data ok_env (Some ?rows) (new_session (table s1) (sequence s1))")
  have cols: "list_all (\<lambda>row. quote_columns row \<noteq> None) ?rows"
    by (simp add: example_columns)
  have d: "distinct (map fst ([] :: quote_row list))" by simp
  from load_data_twice_one_row_per_id [OF reliable_ok_env reliable_ok_env cols d l1 l2]
  have "r1 = Inr () \<and> r2 = Inr () \<and> table s2 = table s1
    \<and> length (filter (\<lambda>t. fst t = JNum 42) (table s2)) = 1 \<and> committed s2"
    by (auto simp: example_keyed)
  with l1 l2 show ?thesis by blast
qed

text \<open>
  What the guard of \<open>load_data\<close> does on the rows of a frame. On a reliable sink an
  \<^verbatim>\<open>INSERT\<close> is sent for exactly the rows whose \<open>id\<close> cell is not
  \<^verbatim>\<open>None\<close>, in order; the transaction commits and the \<open>id\<close> of each of these
  rows is then stored. A null identifier is skipped where its cell still holds
  \<^verbatim>\<open>None\<close>, as in a frame of one row; a cell that holds NaN is not skipped.
\<close>

theorem load_data_skips_null_id:
  assumes "reliable env" and "rows \<noteq> []"
    and "list_all (\<lambda>row. quote_columns row \<noteq> None) rows"
    and "load_data env (Some rows) (new_session tbl n) = (r, s)"
  shows "r = Inr () \<and> committed s
         \<and> executed s = map quote_params (keyed rows)
         \<and> (\<forall>p \<in> set (executed s). hd p \<noteq> JNull)
         \<and> table s = fold insert_on_conflict_do_nothing (keyed rows) tbl
         \<and> (\<forall>q \<in> set (keyed rows). fst q \<in> fst ` set (table s))"
proof -
  from load_data_reliable [OF assms(1,2,3), of tbl n] assms(4)
  have r: "r = Inr ()" and c: "committed s" and e: "executed s = map quote_params (keyed rows)"
    and t: "table s = fold insert_on_conflict_do_nothing (keyed rows) tbl"
    by auto
  have nn: "\<forall>p \<in> set (executed s). hd p \<noteq> JNull"
    unfolding e by (auto simp: keyed_def quote_params_def split: prod.splits)
  have "\<forall>q \<in> set (keyed rows). fst q \<in> fst ` set (table s)"
    unfolding t upsert_ids by blast
  with r c e nn t show ?thesis by blast
qed


theorem load_data_skips_null_id_witness:
  "\<exists>s. load_data ok_env (Some [quote42, quote_without_id]) (new_session [] 0) = (Inr (), s)
     \<and> committed s
     \<and> executed s = [[JNum 42, JStr ''Stay'', JStr ''A'', JStr []]]
     \<and> table s = [(JNum 42, JStr ''Stay'', JStr ''A'', JStr [])]"
proof -
  let ?rows = "[quote42, quote_without_id]"
  obtain r s where l: "load_data ok_env (Some ?rows) (new_session [] 0) = (r, s)"
    by (cases "load_data ok_env (Some ?rows) (new_session ([] :: quote_row list) 0)")
  have cols: "list_all (\<lambda>row. quote_columns row \<noteq> None) ?rows"
    by (simp add: example_columns)
  have ne: "?rows \<noteq> []" by simp
  from load_data_skips_null_id [OF reliable_ok_env ne cols l]
  have "r = Inr () \<and> committed s \<and> executed s = [[JNum 42, JStr ''Stay'', JStr ''A'', JStr []]]
    \<and> table s = [(JNum 42, JStr ''Stay'', JStr ''A'', JStr [])]"
    by (auto simp: example_keyed quote_params_def insert_on_conflict_do_nothing_def)
  with l show ?thesis by blast
qed

section \<open>Properties of the append-only loaders\<close>

lemma insert_price_ok:
  assumes "price_columns crypto \<noteq> None" "cursor s" "\<not> execute_fails env (calls s)"
  shows "insert_price env crypto s =
           (Inr (), s\<lparr>view := view s @ [price_row env crypto],
                       calls := Suc (calls s),
                       executed := executed s @ [price_params crypto]\<rparr>)"
  using assms
  by (auto simp: price_columns_def insert_price_def with_value_def seq_def sent_def execute_def
        price_row_def price_params_def split: sum.splits prod.splits)

lemma insert_price_loop_ok:
  assumes "reliable env" "list_all (\<lambda>c. price_columns c \<noteq> None) items" "cursor s"
  shows "for_each items (insert_price env) s =
           (Inr (), s\<lparr>view := view s @ map (price_row env) items,
                       calls := calls s + length items,
                       executed := executed s @ map price_params items\<rparr>)"
  using assms(2,3)
proof (induction items arbitrary: s)
  case Nil
  show ?case by simp
next
  case (Cons item rest)
  then have col: "price_columns item \<noteq> None"
    and rest: "list_all (\<lambda>c. price_columns c \<noteq> None) rest" by simp_all
  have nf: "\<not> execute_fails env (calls s)" using assms(1) by (simp add: reliable_def)
  let ?s = "s\<lparr>view := view s @ [price_row env item], calls := Suc (calls s),
              executed := executed s @ [price_params item]\<rparr>"
  have c: "cursor ?s" using Cons.prems(2) by simp
  from Cons.IH [OF rest c] show ?case
    by (simp add: insert_price_ok [OF col Cons.prems(2) nf])
qed

lemma insert_into_postgres_reliable:
  assumes "reliable env" "items \<noteq> []" "list_all (\<lambda>c. price_columns c \<noteq> None) items"
  shows "insert_into_postgres env (JArr items) (new_session tbl n) =
           (Inr (), \<lparr>table = tbl @ map (price_row env) items,
                     view = tbl @ map (price_row env) items,
                     sequence = n, connection = True, cursor = True, closed = True,
                     committed = True, calls = length items,
                     executed = map price_params items\<rparr>)"
proof -
  let ?s = "\<lparr>table = tbl, view = tbl, sequence = n, connection = True, cursor = True,
            closed = False, committed = False, calls = 0, executed = []\<rparr> :: price_row session"
  have c: "cursor ?s" by simp
  note loop = insert_price_loop_ok [OF assms(1) assms(3) c]
  from assms(1,2) show ?thesis
    by (simp add: insert_into_postgres_def seq_def with_value_def connect_def open_cursor_def
          commit_def close_cursor_def close_connection_def new_session_def
          reliable_def loop)
qed

lemma load_to_postgres_self_confidence_reliable:
  assumes "reliable env"
    and "py_item data ''quote'' = Inr a" "py_item data ''author'' = Inr b"
    and "py_item data ''type'' = Inr c"
  shows "load_to_postgres_self_confidence env data (new_session tbl n) =
           (Inr (), \<lparr>table = tbl @ [(Suc n, a, b, c)], view = tbl @ [(Suc n, a, b, c)],
                     sequence = Suc n, connection = True, cursor = True, closed = True,
                     committed = True, calls = Suc (Suc 0), executed = [[a, b, c]]\<rparr>)"
  using assms
  by (simp add: load_to_postgres_self_confidence_def seq_def with_value_def connect_def
        open_cursor_def execute_def execute_serial_def insert_serial_def sent_def commit_def
        close_cursor_def close_connection_def new_session_def reliable_def)

lemma reliable_later_env: "reliable later_env"
  by (simp add: reliable_def later_env_def ok_env_def)

lemma example_price_columns:
  "price_columns btc = Some (JStr ''BTC'', JNum (5000012 / 100), JNum (123 / 100))"
  "price_columns eth = Some (JStr ''ETH'', JNum 3000, JNum 2)"
  by (simp_all add: price_columns_def btc_def eth_def)

text \<open>
  C9. On a reliable sink, loading the same batch of \<open>n\<close> price records twice with
  \<open>insert_into_postgres\<close> appends the \<open>n\<close> rows twice: the table grows by
  \<open>2 * n\<close> rows, which carry the values of the batch, then the same values again.
  Loading the same quote twice with \<open>load_to_postgres\<close> of
  \<^verbatim>\<open>self_confidence.py\<close> appends two rows with the same values and successive
  surrogate keys.
\<close>

theorem append_only_loads_twice:
  assumes "reliable env1" and "reliable env2"
    and "items \<noteq> []" and "list_all (\<lambda>c. price_columns c \<noteq> None) items"
    and "insert_into_postgres env1 (JArr items) (new_session tbl n) = (r1, s1)"
    and "insert_into_postgres env2 (JArr items) (new_session (table s1) (sequence s1)) = (r2, s2)"
    and "py_item data ''quote'' = Inr a" and "py_item data ''author'' = Inr b"
    and "py_item data ''type'' = Inr c"
    and "load_to_postgres_self_confidence env1 data (new_session tbl' n') = (r1', s1')"
    and "load_to_postgres_self_confidence env2 data (new_session (table s1') (sequence s1'))
           = (r2', s2')"
  shows "r1 = Inr () \<and> r2 = Inr ()
         \<and> table s2 = tbl @ map (price_row env1) items @ map (price_row env2) items
         \<and> length (table s2) = length tbl + 2 * length items
         \<and> map values_of (drop (length tbl) (table s2)) = map price_params items @ map price_params items
         \<and> r1' = Inr () \<and> r2' = Inr ()
         \<and> table s2' = tbl' @ [(Suc n', a, b, c), (Suc (Suc n'), a, b, c)]"
proof -
  from insert_into_postgres_reliable [OF assms(1,3,4), of tbl n] assms(5)
  have one: "r1 = Inr ()" "table s1 = tbl @ map (price_row env1) items" by auto
  from insert_into_postgres_reliable [OF assms(2,3,4), of "table s1" "sequence s1"] assms(6)
  have two: "r2 = Inr ()" "table s2 = table s1 @ map (price_row env2) items" by auto
  have t: "table s2 = tbl @ map (price_row env1) items @ map (price_row env2) items"
    using one(2) two(2) by simp
  have v: "\<And>env. map values_of (map (price_row env) items) = map price_params items"
    by (simp add: values_of_def price_row_def price_params_def split: prod.splits)
  have d: "map values_of (drop (length tbl) (table s2)) = map price_params items @ map price_params items"
    unfolding t using v by simp
  from load_to_postgres_self_confidence_reliable [OF assms(1,7,8,9), of tbl' n'] assms(10)
  have one': "r1' = Inr ()" "table s1' = tbl' @ [(Suc n', a, b, c)]" "sequence s1' = Suc n'" by auto
  from load_to_postgres_self_confidence_reliable [OF assms(2,7,8,9), of "table s1'" "sequence s1'"] assms(11)
  have two': "r2' = Inr ()" "table s2' = table s1' @ [(Suc (sequence s1'), a, b, c)]" by auto
  from one(1) two(1) t d one' two' show ?thesis by simp
qed

theorem append_only_loads_twice_witness:
  "\<exists>s1 s2 s1' s2'.
      insert_into_postgres ok_env (JArr [btc, eth]) (new_session [] 0) = (Inr (), s1)
    \<and> insert_into_postgres later_env (JArr [btc, eth]) (new_session (table s1) (sequence s1))
        = (Inr (), s2)
    \<and> length (table s2) = 4
    \<and> map values_of (table s2) =
         [[JStr ''BTC'', JNum (5000012 / 100), JNum (123 / 100)], [JStr ''ETH'', JNum 3000, JNum 2],
          [JStr ''BTC'', JNum (5000012 / 100), JNum (123 / 100)], [JStr ''ETH'', JNum 3000, JNum 2]]
    \<and> load_to_postgres_self_confidence ok_env confidence_quote (new_session [] 0) = (Inr (), s1')
    \<and> load_to_postgres_self_confidence later_env confidence_quote
          (new_session (table s1') (sequence s1')) = (Inr (), s2')
    \<and> table s2' = [(1, JStr ''Believe'', JStr ''B'', JStr ''selfconfidence''),
                    (2, JStr ''Believe'', JStr ''B'', JStr ''selfconfidence'')]"
proof -
  let ?items = "[btc, eth]"
  obtain r1 s1 where l1: "insert_into_postgres ok_env (JArr ?items) (new_session [] 0) = (r1, s1)"
    by (cases "insert_into_postgres ok_env (JArr ?items) (new_session [] 0)")
  obtain r2 s2 where l2: "insert_into_postgres later_env (JArr ?items)
                             (new_session (table s1) (sequence s1)) = (r2, s2)"
    by (cases "insert_into_postgres later_env (JArr ?items) (new_session (table s1) (sequence s1))")
  obtain r1' s1' where l1': "load_to_postgres_self_confidence ok_env confidence_quote
                               (new_session [] 0) = (r1', s1')"
    by (cases "load_to_postgres_self_confidence ok_env confidence_quote (new_session [] 0)")
  obtain r2' s2' where l2': "load_to_postgres_self_confidence later_env confidence_quote
                               (new_session (table s1') (sequence s1')) = (r2', s2')"
    by (cases "load_to_postgres_self_confidence later_env confidence_quote
                 (new_session (table s1') (sequence s1'))")
  have ne: "?items \<noteq> []" by simp
  have cols: "list_all (\<lambda>c. price_columns c \<noteq> None) ?items"
    by (simp add: example_price_columns)
  have q: "py_item confidence_quote ''quote'' = Inr (JStr ''Believe'')"
    and a: "py_item confidence_quote ''author'' = Inr (JStr ''B'')"
    and t: "py_item confidence_quote ''type'' = Inr (JStr ''selfconfidence'')"
    by (simp_all add: confidence_quote_def)
  from append_only_loads_twice [OF reliable_ok_env reliable_later_env ne cols l1 l2 q a t l1' l2']
  have "r1 = Inr () \<and> r2 = Inr () \<and> length (table s2) = 4
    \<and> map values_of (table s2) =
         [[JStr ''BTC'', JNum (5000012 / 100), JNum (123 / 100)], [JStr ''ETH'', JNum 3000, JNum 2],
          [JStr ''BTC'', JNum (5000012 / 100), JNum (123 / 100)], [JStr ''ETH'', JNum 3000, JNum 2]]
    \<and> r1' = Inr () \<and> r2' = Inr ()
    \<and> table s2' = [(1, JStr ''Believe'', JStr ''B'', JStr ''selfconfidence''),
                    (2, JStr ''Believe'', JStr ''B'', JStr ''selfconfidence'')]"
    by (simp add: price_params_def values_of_def price_row_def example_price_columns)
  with l1 l2 l1' l2' show ?thesis
    by (intro exI [of _ s1] exI [of _ s2] exI [of _ s1'] exI [of _ s2']) simp
qed

section \<open>Outcomes of the loaders\<close>

lemma undisturbed_refl: "undisturbed s s"
  by (simp add: undisturbed_def)

lemma undisturbed_trans: "undisturbed a b \<Longrightarrow> undisturbed b c \<Longrightarrow> undisturbed a c"
  by (simp add: undisturbed_def)

lemma accepted_refl: "accepted env s s"
  by (auto simp: accepted_def)

lemma accepted_trans: "accepted env a b \<Longrightarrow> accepted env b c \<Longrightarrow> accepted env a c"
  unfolding accepted_def by (meson not_le_imp_less)

lemma for_each_undisturbed:
  assumes step: "\<And>x s r s'. body x s = (r, s') \<Longrightarrow> undisturbed s s'"
  shows "for_each xs body s = (r, s') \<Longrightarrow> undisturbed s s'"
proof (induction xs arbitrary: s)
  case Nil
  then show ?case by (simp add: undisturbed_def)
next
  case (Cons x xs)
  obtain r1 s1 where b: "body x s = (r1, s1)" by (cases "body x s")
  note u = step [OF b]
  show ?case
  proof (cases r1)
    case (Inl e)
    with b Cons.prems u show ?thesis by simp
  next
    case (Inr v)
    with b Cons.prems have "for_each xs body s1 = (r, s')" by simp
    from undisturbed_trans [OF u Cons.IH [OF this]] show ?thesis .
  qed
qed

lemma for_each_accepted:
  assumes step: "\<And>x s s'. body x s = (Inr (), s') \<Longrightarrow> accepted env s s'"
  shows "for_each xs body s = (Inr (), s') \<Longrightarrow> accepted env s s'"
proof (induction xs arbitrary: s)
  case Nil
  then show ?case by (auto simp: accepted_def)
next
  case (Cons x xs)
  obtain r1 s1 where b: "body x s = (r1, s1)" by (cases "body x s")
  show ?case
  proof (cases r1)
    case (Inl e)
    with b Cons.prems show ?thesis by simp
  next
    case (Inr v)
    with b have b': "body x s = (Inr (), s1)" by simp
    from Inr b Cons.prems have "for_each xs body s1 = (Inr (), s')" by simp
    from accepted_trans [OF step [OF b'] Cons.IH [OF this]] show ?thesis .
  qed
qed

lemma execute_undisturbed: "execute env f s = (r, s') \<Longrightarrow> undisturbed s s'"
  by (auto simp: execute_def undisturbed_def split: if_splits)

lemma execute_accepted: "execute env f s = (Inr (), s') \<Longrightarrow> accepted env s s'"
  by (auto simp: execute_def accepted_def less_Suc_eq split: if_splits)

lemma insert_price_undisturbed: "insert_price env c s = (r, s') \<Longrightarrow> undisturbed s s'"
  by (auto simp: insert_price_def with_value_def seq_def sent_def execute_def undisturbed_def
        split: sum.splits if_splits)

lemma insert_price_accepted: "insert_price env c s = (Inr (), s') \<Longrightarrow> accepted env s s'"
  by (auto simp: insert_price_def with_value_def seq_def sent_def execute_def accepted_def less_Suc_eq
        split: sum.splits if_splits)

lemma load_data_row_undisturbed: "load_data_row env row s = (r, s') \<Longrightarrow> undisturbed s s'"
  by (auto simp: load_data_row_def with_value_def seq_def sent_def execute_def skip_def
        undisturbed_def split: sum.splits if_splits)

lemma batch_step_undisturbed:
  "seq (sent t) (execute env f) s = (r, s') \<Longrightarrow> undisturbed s s'"
  by (auto simp: seq_def sent_def execute_def undisturbed_def split: if_splits)

lemma batch_step_accepted:
  "seq (sent t) (execute env f) s = (Inr (), s') \<Longrightarrow> accepted env s s'"
  by (auto simp: seq_def sent_def execute_def accepted_def less_Suc_eq split: if_splits)


lemma insert_into_postgres_outcome:
  assumes run: "insert_into_postgres env data (new_session tbl n) = (r, s)"
  shows "(r = Inr () \<and> committed s \<and> closed s \<and> no_failure env s)
         \<or> (isl r \<and> table s = tbl \<and> \<not> committed s \<and> \<not> closed s)"
proof (cases "truthy data \<and> \<not> connect_fails env \<and> \<not> cursor_fails env")
  case False
  with run show ?thesis
    by (auto simp: insert_into_postgres_def raise_exn_def seq_def connect_def open_cursor_def
          new_session_def split: if_splits)
next
  case True
  let ?s2 = "(new_session tbl n :: price_row session)\<lparr>connection := True, view := tbl, cursor := True\<rparr>"
  let ?rest = "seq (with_value (py_iter data) (\<lambda>items. for_each items (insert_price env)))
                 (seq (commit env) (seq close_cursor close_connection))"
  have start: "insert_into_postgres env data (new_session tbl n) = ?rest ?s2"
    using True
    by (simp add: insert_into_postgres_def seq_def connect_def open_cursor_def new_session_def)
  show ?thesis
  proof (cases "py_iter data")
    case (Inl e)
    with run start show ?thesis
      by (auto simp: seq_def with_value_def new_session_def)
  next
    case (Inr items)
    obtain rl sl where loop: "for_each items (insert_price env) ?s2 = (rl, sl)"
      by (cases "for_each items (insert_price env) ?s2")
    have u: "undisturbed ?s2 sl"
      using for_each_undisturbed [of "insert_price env", OF insert_price_undisturbed loop] .
    show ?thesis
    proof (cases rl)
      case (Inl e)
      with run start Inr loop u show ?thesis
        by (auto simp: seq_def with_value_def undisturbed_def new_session_def)
    next
      case ok: (Inr v)
      with loop have "for_each items (insert_price env) ?s2 = (Inr (), sl)" by simp
      from for_each_accepted [of "insert_price env", OF insert_price_accepted this]
      have a: "accepted env ?s2 sl" .
      have all: "\<forall>k. k < calls sl \<longrightarrow> \<not> execute_fails env k"
        using a by (simp add: accepted_def new_session_def)
      from run start Inr loop ok u all True show ?thesis
        by (auto simp: seq_def with_value_def commit_def close_cursor_def close_connection_def
              undisturbed_def no_failure_def new_session_def split: if_splits)
    qed
  qed
qed

lemma load_to_postgres_healthcare_outcome:
  assumes run: "load_to_postgres_healthcare env data (new_session tbl n) = (r, s)"
  shows "(r = Inr () \<and> committed s \<and> closed s \<and> no_failure env s)
         \<or> (isl r \<and> table s = tbl \<and> \<not> committed s \<and> (cursor s \<longrightarrow> closed s))"
proof (cases "read_json data")
  case (Inl e)
  with run show ?thesis
    by (auto simp: load_to_postgres_healthcare_def try_finally_def try_except_def with_value_def
          seq_def rollback_def close_cursor_def new_session_def)
next
  case (Inr data_tuples)
  show ?thesis
  proof (cases "\<not> connect_fails env \<and> \<not> cursor_fails env")
    case False
    with run Inr show ?thesis
      by (auto simp: load_to_postgres_healthcare_def try_finally_def try_except_def with_value_def
            seq_def connect_def open_cursor_def rollback_def raise_exn_def close_cursor_def
            new_session_def split: if_splits)
  next
    case True
    let ?s2 = "(new_session tbl n :: job_row session)\<lparr>connection := True, view := tbl, cursor := True\<rparr>"
    let ?body = "\<lambda>t. seq (sent t) (execute env (\<lambda>rows. rows @ [t]))"
    obtain rl sl where loop: "for_each data_tuples ?body ?s2 = (rl, sl)"
      by (cases "for_each data_tuples ?body ?s2")
    have u: "undisturbed ?s2 sl"
      using for_each_undisturbed [of ?body, OF batch_step_undisturbed loop] .
    have start: "load_to_postgres_healthcare env data (new_session tbl n) =
       try_finally
         (try_except (seq (execute_batch env data_tuples) (commit env))
            (\<lambda>e. seq (rollback env) (raise_exn e)))
         (seq close_cursor close_connection) ?s2"
      using True Inr
      by (simp add: load_to_postgres_healthcare_def try_finally_def try_except_def with_value_def
            seq_def connect_def open_cursor_def new_session_def)
    show ?thesis
    proof (cases rl)
      case (Inl e)
      with run start loop u show ?thesis
        by (auto simp: try_finally_def try_except_def seq_def execute_batch_def rollback_def
              raise_exn_def close_cursor_def close_connection_def undisturbed_def new_session_def
              split: if_splits)
    next
      case ok: (Inr v)
      with loop have "for_each data_tuples ?body ?s2 = (Inr (), sl)" by simp
      from for_each_accepted [of ?body, OF batch_step_accepted this]
      have a: "accepted env ?s2 sl" .
      have all: "\<forall>k. k < calls sl \<longrightarrow> \<not> execute_fails env k"
        using a by (simp add: accepted_def new_session_def)
      from run start loop ok u all True show ?thesis
        by (auto simp: try_finally_def try_except_def seq_def execute_batch_def commit_def
              rollback_def raise_exn_def close_cursor_def close_connection_def
              undisturbed_def no_failure_def new_session_def split: if_splits)
    qed
  qed
qed

lemma load_data_row_accepted: "load_data_row env row s = (Inr (), s') \<Longrightarrow> accepted env s s'"
  by (auto simp: load_data_row_def with_value_def seq_def sent_def execute_def skip_def
        accepted_def less_Suc_eq split: sum.splits if_splits)

lemma load_data_outcome:
  assumes run: "load_data env (Some rows) (new_session tbl n) = (r, s)" and rows: "rows \<noteq> []"
  shows "cursor s = (\<not> connect_fails env \<and> \<not> cursor_fails env)
         \<and> ((r = Inr () \<and> committed s \<and> closed s \<and> no_failure env s)
              \<or> (table s = tbl \<and> \<not> committed s
                  \<and> (if cursor s
                      then r = (if rollback_fails env then Inl DatabaseError else Inr ()) \<and> closed s
                      else isl r \<and> \<not> closed s)))"
proof (cases "\<not> connect_fails env \<and> \<not> cursor_fails env")
  case False
  with run rows show ?thesis
    by (auto simp: load_data_def try_finally_def try_except_def seq_def connect_def
          open_cursor_def rollback_def close_cursor_def new_session_def split: if_splits)
next
  case conn: True
  let ?s2 = "(new_session tbl n :: quote_row session)\<lparr>connection := True, view := tbl, cursor := True\<rparr>"
  have start: "load_data env (Some rows) (new_session tbl n) =
       try_finally
         (try_except
            (seq (execute env (\<lambda>t. t))
            (seq (execute env (\<lambda>t. t))
            (seq (for_each rows (load_data_row env)) (commit env))))
            (\<lambda>e. rollback env))
         (seq close_cursor close_connection) ?s2"
    using conn rows
    by (simp add: load_data_def try_finally_def try_except_def seq_def connect_def
          open_cursor_def new_session_def)
  show ?thesis
  proof (cases "execute_fails env 0 \<or> execute_fails env (Suc 0)")
    case fails: True
    with run start conn show ?thesis
      by (auto simp: try_finally_def try_except_def seq_def execute_def rollback_def
            close_cursor_def close_connection_def new_session_def split: if_splits)
  next
    case fine: False
    let ?s4 = "?s2\<lparr>calls := Suc (Suc 0)\<rparr>"
    have start': "load_data env (Some rows) (new_session tbl n) =
       try_finally
         (try_except (seq (for_each rows (load_data_row env)) (commit env)) (\<lambda>e. rollback env))
         (seq close_cursor close_connection) ?s4"
      using fine unfolding start
      by (simp add: try_finally_def try_except_def seq_def execute_def new_session_def)
    obtain rl sl where loop: "for_each rows (load_data_row env) ?s4 = (rl, sl)"
      by (cases "for_each rows (load_data_row env) ?s4")
    have u: "undisturbed ?s4 sl"
      using for_each_undisturbed [of "load_data_row env", OF load_data_row_undisturbed loop] .
    show ?thesis
    proof (cases rl)
      case (Inl e)
      with run start' loop u conn show ?thesis
        by (auto simp: try_finally_def try_except_def seq_def rollback_def
              close_cursor_def close_connection_def undisturbed_def new_session_def)
    next
      case ok: (Inr v)
      with loop have "for_each rows (load_data_row env) ?s4 = (Inr (), sl)" by simp
      from for_each_accepted [of "load_data_row env", OF load_data_row_accepted this]
      have a: "accepted env ?s4 sl" .
      have all: "\<forall>k. k < calls sl \<longrightarrow> \<not> execute_fails env k"
      proof (intro allI impI)
        fix k assume k: "k < calls sl"
        show "\<not> execute_fails env k"
        proof (cases "k < Suc (Suc 0)")
          case True
          with fine show ?thesis by (auto simp: less_Suc_eq)
        next
          case False
          with a k show ?thesis by (simp add: accepted_def new_session_def)
        qed
      qed
      from run start' loop ok u all conn show ?thesis
        by (auto simp: try_finally_def try_except_def seq_def commit_def
              rollback_def close_cursor_def close_connection_def
              undisturbed_def no_failure_def new_session_def split: if_splits)
    qed
  qed
qed



lemma fetch_data_fails: "request_fails reply \<Longrightarrow> isl (fetch_data key reply)"
  by (auto simp: request_fails_def fetch_data_def try_catch_def and_then_def requests_get_def
        raise_for_status_def response_json_def split: http_reply.splits option.splits)

lemmas driver_defs =
  seq_def with_value_def try_except_def try_finally_def connect_def open_cursor_def execute_def
  commit_def rollback_def close_cursor_def close_connection_def sent_def skip_def raise_exn_def
  new_session_def

lemma insert_into_postgres_second_fails:
  "insert_into_postgres second_fails (JArr [btc, eth]) (new_session [] 0) =
     (Inl DatabaseError,
      \<lparr>table = [], view = [(JStr ''BTC'', JNum (5000012 / 100), JNum (123 / 100), now ok_env)],
       sequence = 0, connection = True, cursor = True, closed = False, committed = False,
       calls = 2,
       executed = [[JStr ''BTC'', JNum (5000012 / 100), JNum (123 / 100)],
                   [JStr ''ETH'', JNum 3000, JNum 2]]\<rparr>)"
  by (simp add: insert_into_postgres_def insert_price_def driver_defs second_fails_def ok_env_def
        btc_def eth_def)

lemma load_to_postgres_healthcare_second_fails:
  "load_to_postgres_healthcare second_fails (JArr [btc, eth]) (new_session [] 0) =
     (Inl DatabaseError,
      \<lparr>table = [], view = [], sequence = 0, connection = True, cursor = True, closed = True,
       committed = False, calls = 2,
       executed = [[JStr ''BTC'', JNum (5000012 / 100), JNum (123 / 100)],
                   [JStr ''ETH'', JNum 3000, JNum 2]]\<rparr>)"
  by (simp add: load_to_postgres_healthcare_def execute_batch_def read_json_def driver_defs
        second_fails_def ok_env_def btc_def eth_def)

lemma load_data_third_fails:
  "load_data third_fails (Some [quote42]) (new_session [] 0) =
     (Inr (),
      \<lparr>table = [], view = [], sequence = 0, connection = True, cursor = True, closed = True,
       committed = False, calls = 3,
       executed = [[JNum 42, JStr ''Stay'', JStr ''A'', JStr []]]\<rparr>)"
  by (simp add: load_data_def load_data_row_def driver_defs third_fails_def ok_env_def
        quote42_def)

lemma load_to_postgres_healthcare_example:
  "load_to_postgres_healthcare ok_env (JArr [btc, eth]) (new_session [] 0) =
     (Inr (),
      \<lparr>table = [[JStr ''BTC'', JNum (5000012 / 100), JNum (123 / 100)],
                 [JStr ''ETH'', JNum 3000, JNum 2]],
       view = [[JStr ''BTC'', JNum (5000012 / 100), JNum (123 / 100)],
                [JStr ''ETH'', JNum 3000, JNum 2]],
       sequence = 0, connection = True, cursor = True, closed = True,
       committed = True, calls = 2,
       executed = [[JStr ''BTC'', JNum (5000012 / 100), JNum (123 / 100)],
                   [JStr ''ETH'', JNum 3000, JNum 2]]\<rparr>)"
  by (simp add: load_to_postgres_healthcare_def execute_batch_def read_json_def driver_defs
        ok_env_def btc_def eth_def)

text \<open>
  C1, at an input where the code departs from it. The sink raises on the second
  \<^verbatim>\<open>INSERT\<close> of a batch of two price records. \<open>insert_into_postgres\<close> raises and
  commits no row, but it has acquired a connection and never closes it: the function has
  no \<^verbatim>\<open>finally\<close>. On the same failure \<open>load_to_postgres\<close> of
  \<^verbatim>\<open>healthcare.py\<close> raises, commits no row and closes its connection.
\<close>

theorem insert_into_postgres_leaves_connection_open:
  "fst (insert_into_postgres second_fails (JArr [btc, eth]) (new_session [] 0)) = Inl DatabaseError
   \<and> table (snd (insert_into_postgres second_fails (JArr [btc, eth]) (new_session [] 0))) = []
   \<and> connection (snd (insert_into_postgres second_fails (JArr [btc, eth]) (new_session [] 0)))
   \<and> \<not> closed (snd (insert_into_postgres second_fails (JArr [btc, eth]) (new_session [] 0)))
   \<and> fst (load_to_postgres_healthcare second_fails (JArr [btc, eth]) (new_session [] 0))
       = Inl DatabaseError
   \<and> closed (snd (load_to_postgres_healthcare second_fails (JArr [btc, eth]) (new_session [] 0)))
   \<and> \<not> released (snd (insert_into_postgres second_fails (JArr [btc, eth]) (new_session [] 0)))
   \<and> released (snd (load_to_postgres_healthcare second_fails (JArr [btc, eth]) (new_session [] 0)))"
  by (simp add: insert_into_postgres_second_fails load_to_postgres_healthcare_second_fails
        released_def)

text \<open>
  C7, as the code has it. In \<^verbatim>\<open>crypto_prices.py\<close> and \<^verbatim>\<open>healthcare.py\<close> no
  error is swallowed: a loader that returns normally has met no failure of the sink and
  has committed, and a fetcher whose request fails raises. In \<^verbatim>\<open>quotes.py\<close> the
  errors are caught: \<open>fetch_quote\<close> returns \<open>None\<close> when its request fails, and
  \<open>load_data\<close>, once it holds a connection and a cursor, returns normally after a
  failure of a statement or of the commit whenever the \<^verbatim>\<open>rollback()\<close> of its
  handler succeeds. The handler calls \<^verbatim>\<open>rollback()\<close> unguarded: when that raises
  too, its exception reaches the caller. In every case the connection is closed and,
  after a failure, nothing is committed.
\<close>

theorem errors_raise_except_in_quotes:
  "(insert_into_postgres env crypto_data (new_session prices n1) = (Inr (), s1) \<longrightarrow>
       no_failure env s1 \<and> committed s1)
   \<and> (load_to_postgres_healthcare env transformed_data (new_session jobs n2) = (Inr (), s2) \<longrightarrow>
       no_failure env s2 \<and> committed s2)
   \<and> (request_fails reply \<longrightarrow>
       isl (fetch_crypto_prices reply) \<and> isl (fetch_data key reply)
       \<and> fetch_quote_quotes reply = Inr JNull)
   \<and> (rows \<noteq> [] \<and> \<not> connect_fails env \<and> \<not> cursor_fails env
       \<and> load_data env (Some rows) (new_session quotes n3) = (r3, s3) \<longrightarrow>
       closed s3
       \<and> (\<not> rollback_fails env \<longrightarrow> r3 = Inr ())
       \<and> (committed s3 \<longrightarrow> r3 = Inr ())
       \<and> (\<not> no_failure env s3 \<longrightarrow>
            table s3 = quotes \<and> \<not> committed s3
            \<and> (rollback_fails env \<longrightarrow> r3 = Inl DatabaseError)))"
proof (intro conjI impI)
  assume "insert_into_postgres env crypto_data (new_session prices n1) = (Inr (), s1)"
  from insert_into_postgres_outcome [OF this]
  show "no_failure env s1" and "committed s1" by auto
next
  assume "load_to_postgres_healthcare env transformed_data (new_session jobs n2) = (Inr (), s2)"
  from load_to_postgres_healthcare_outcome [OF this]
  show "no_failure env s2" and "committed s2" by auto
next
  assume f: "request_fails reply"
  show "isl (fetch_crypto_prices reply)" by (simp add: fetch_crypto_prices_fails [OF f])
  show "isl (fetch_data key reply)" by (rule fetch_data_fails [OF f])
  show "fetch_quote_quotes reply = Inr JNull" by (rule fetch_quote_fails [OF f])
next
  assume a: "rows \<noteq> [] \<and> \<not> connect_fails env \<and> \<not> cursor_fails env
       \<and> load_data env (Some rows) (new_session quotes n3) = (r3, s3)"
  then have run: "load_data env (Some rows) (new_session quotes n3) = (r3, s3)"
    and rows: "rows \<noteq> []" by simp_all
  note out = load_data_outcome [OF run rows]
  from out a show "closed s3" by (auto split: if_splits)
  {
    assume "\<not> rollback_fails env"
    with out a show "r3 = Inr ()" by (auto split: if_splits)
  }
  {
    assume "committed s3"
    with out show "r3 = Inr ()" by auto
  }
  {
    assume nf: "\<not> no_failure env s3"
    with out show "table s3 = quotes" and "\<not> committed s3" by auto
    assume "rollback_fails env"
    with out a nf show "r3 = Inl DatabaseError" by (auto split: if_splits)
  }
qed

theorem errors_raise_except_in_quotes_witness:
  "(\<exists>s. insert_into_postgres ok_env (JArr [btc, eth]) (new_session [] 0) = (Inr (), s)
        \<and> no_failure ok_env s \<and> committed s)
   \<and> (\<exists>s. load_to_postgres_healthcare ok_env (JArr [btc, eth]) (new_session [] 0) = (Inr (), s)
        \<and> no_failure ok_env s \<and> committed s)
   \<and> isl (fetch_crypto_prices (Reply 503 None)) \<and> isl (fetch_data (Some ''k'') (Reply 503 None))
   \<and> fetch_quote_quotes (Reply 503 None) = Inr JNull
   \<and> (\<exists>s. load_data commit_fails_env (Some [quote42]) (new_session [] 0) = (Inr (), s)
        \<and> closed s \<and> table s = [] \<and> \<not> committed s)
   \<and> (\<exists>s. load_data lost_connection (Some [quote42]) (new_session [] 0) = (Inl DatabaseError, s)
        \<and> closed s \<and> table s = [] \<and> \<not> committed s)"
proof -
  have cols: "list_all (\<lambda>c. price_columns c \<noteq> None) [btc, eth]"
    by (simp add: example_price_columns)
  from insert_into_postgres_reliable [OF reliable_ok_env _ cols, of "[]" 0]
  obtain s1 where l1: "insert_into_postgres ok_env (JArr [btc, eth]) (new_session [] 0) = (Inr (), s1)"
    by auto
  obtain s2 where l2: "load_to_postgres_healthcare ok_env (JArr [btc, eth]) (new_session [] 0)
                         = (Inr (), s2)"
    using load_to_postgres_healthcare_example by blast
  obtain r3 s3 where l3: "load_data commit_fails_env (Some [quote42]) (new_session [] 0) = (r3, s3)"
    by (cases "load_data commit_fails_env (Some [quote42]) (new_session ([] :: quote_row list) 0)")
  have f: "request_fails (Reply 503 None)"
    by (simp add: request_fails_def)
  have h: "[quote42] \<noteq> [] \<and> \<not> connect_fails commit_fails_env \<and> \<not> cursor_fails commit_fails_env
       \<and> load_data commit_fails_env (Some [quote42]) (new_session [] 0) = (r3, s3)"
    using l3 by (simp add: commit_fails_env_def ok_env_def)
  have nf: "\<not> no_failure commit_fails_env s3"
    by (simp add: no_failure_def commit_fails_env_def)
  note inst1 = errors_raise_except_in_quotes
    [of ok_env "JArr [btc, eth]" "[]" 0 s1 "JArr [btc, eth]" "[]" 0 s2
        "Reply 503 None" "Some ''k''" "[]" "[]" 0 "Inr ()" s3]
  note inst3 = errors_raise_except_in_quotes
    [of commit_fails_env JNull "[]" 0 s1 JNull "[]" 0 s2
        "Reply 503 None" "Some ''k''" "[quote42]" "[]" 0 r3 s3]
  from inst1 l1 l2 f have first: "no_failure ok_env s1 \<and> committed s1 \<and> no_failure ok_env s2
     \<and> committed s2 \<and> isl (fetch_crypto_prices (Reply 503 None))
     \<and> isl (fetch_data (Some ''k'') (Reply 503 None))
     \<and> fetch_quote_quotes (Reply 503 None) = Inr JNull"
    by blast
  have rb: "\<not> rollback_fails commit_fails_env"
    by (simp add: commit_fails_env_def ok_env_def)
  from inst3 h nf rb have third: "r3 = Inr () \<and> closed s3 \<and> table s3 = [] \<and> \<not> committed s3"
    by blast
  obtain r4 s4 where l4: "load_data lost_connection (Some [quote42]) (new_session [] 0) = (r4, s4)"
    by (cases "load_data lost_connection (Some [quote42]) (new_session ([] :: quote_row list) 0)")
  have h4: "[quote42] \<noteq> [] \<and> \<not> connect_fails lost_connection \<and> \<not> cursor_fails lost_connection
       \<and> load_data lost_connection (Some [quote42]) (new_session [] 0) = (r4, s4)"
    using l4 by (simp add: lost_connection_def ok_env_def)
  have nf4: "\<not> no_failure lost_connection s4"
    by (simp add: no_failure_def lost_connection_def)
  have rb4: "rollback_fails lost_connection"
    by (simp add: lost_connection_def)
  note inst4 = errors_raise_except_in_quotes
    [of lost_connection JNull "[]" 0 s1 JNull "[]" 0 s2
        "Reply 503 None" "Some ''k''" "[quote42]" "[]" 0 r4 s4]
  from inst4 h4 nf4 rb4
  have fourth: "r4 = Inl DatabaseError \<and> closed s4 \<and> table s4 = [] \<and> \<not> committed s4"
    by blast
  from first third fourth l1 l2 l3 l4 show ?thesis by blast
qed

text \<open>
  The claim C7 as stated fails on \<open>load_data\<close> of \<^verbatim>\<open>quotes.py\<close>: when the sink
  raises on the \<^verbatim>\<open>INSERT\<close>, the function rolls back and returns normally to its
  caller, with no row stored.
\<close>

theorem load_data_returns_after_sink_error:
  "fst (load_data third_fails (Some [quote42]) (new_session [] 0)) = Inr ()
   \<and> table (snd (load_data third_fails (Some [quote42]) (new_session [] 0))) = []
   \<and> \<not> committed (snd (load_data third_fails (Some [quote42]) (new_session [] 0)))"
  by (simp add: load_data_third_fails)

section \<open>The null identifier in a frame of several rows\<close>

text \<open>
  The frame of one record keeps the values of the record, so the one-row frame that
  \<open>transform_data\<close> builds holds \<^verbatim>\<open>None\<close> for a null identifier.
\<close>

lemma float_column_single: "\<not> float_column [JNull]"
  by (simp add: float_column_def)

lemma data_frame_single:
  assumes "distinct (map fst kvs)"
  shows "data_frame [JObj kvs] = [JObj kvs]"
proof -
  have "map (\<lambda>kv. (fst kv,
                    if snd kv = JNull \<and> float_column (column_values [JObj kvs] (fst kv))
                    then JNaN else snd kv)) kvs = map (\<lambda>kv. kv) kvs"
  proof (rule map_cong [OF refl])
    fix kv assume "kv \<in> set kvs"
    with assms have "map_of kvs (fst kv) = Some (snd kv)" by simp
    then show "(fst kv,
                if snd kv = JNull \<and> float_column (column_values [JObj kvs] (fst kv))
                then JNaN else snd kv) = kv"
      by (cases kv) (auto simp: column_values_def float_column_single)
  qed
  then show ?thesis by (simp add: data_frame_def)
qed

lemma data_frame_example: "data_frame [quote42, quote_without_id] = [quote42, quote_nan]"
  by (simp add: data_frame_def column_values_def float_column_def quote42_def
        quote_without_id_def quote_nan_def)

lemma load_data_fourth_fails:
  "load_data fourth_fails (Some [quote42, quote_nan]) (new_session [] 0) =
     (Inr (),
      \<lparr>table = [], view = [], sequence = 0, connection = True, cursor = True, closed = True,
       committed = False, calls = 4,
       executed = [[JNum 42, JStr ''Stay'', JStr ''A'', JStr []],
                   [JNaN, JStr ''Go'', JStr ''Unknown'', JStr []]]\<rparr>)"
  by (simp add: load_data_def load_data_row_def driver_defs fourth_fails_def ok_env_def
        quote42_def quote_nan_def insert_on_conflict_do_nothing_def)

lemma load_data_stores_nan:
  "load_data ok_env (Some [quote42, quote_nan]) (new_session [] 0) =
     (Inr (),
      \<lparr>table = [(JNum 42, JStr ''Stay'', JStr ''A'', JStr []),
                 (JNaN, JStr ''Go'', JStr ''Unknown'', JStr [])],
       view = [(JNum 42, JStr ''Stay'', JStr ''A'', JStr []),
                (JNaN, JStr ''Go'', JStr ''Unknown'', JStr [])],
       sequence = 0, connection = True, cursor = True, closed = True,
       committed = True, calls = 4,
       executed = [[JNum 42, JStr ''Stay'', JStr ''A'', JStr []],
                   [JNaN, JStr ''Go'', JStr ''Unknown'', JStr []]]\<rparr>)"
  by (simp add: load_data_def load_data_row_def driver_defs ok_env_def
        quote42_def quote_nan_def insert_on_conflict_do_nothing_def)

text \<open>
  C10, at an input where the code departs from it. The frame is built from two records,
  one with \<open>id\<close> 42 and one whose \<open>id\<close> is null. The \<open>id\<close> column is then a
  float column and the null identifier is NaN in it, for which
  \<^verbatim>\<open>row["id"] is not None\<close> is true: the \<^verbatim>\<open>INSERT\<close> is sent for the record
  without identifier too. When the sink rejects that statement the handler rolls back,
  so the record with \<open>id\<close> 42 is not stored and nothing is committed; a sink that
  accepts it stores a row without identifier.
\<close>

theorem load_data_sends_insert_for_null_id:
  "data_frame [quote42, quote_without_id] = [quote42, quote_nan]
   \<and> executed (snd (load_data fourth_fails (Some (data_frame [quote42, quote_without_id]))
                      (new_session [] 0)))
       = [[JNum 42, JStr ''Stay'', JStr ''A'', JStr []],
          [JNaN, JStr ''Go'', JStr ''Unknown'', JStr []]]
   \<and> table (snd (load_data fourth_fails (Some (data_frame [quote42, quote_without_id]))
                   (new_session [] 0))) = []
   \<and> \<not> committed (snd (load_data fourth_fails (Some (data_frame [quote42, quote_without_id]))
                          (new_session [] 0)))
   \<and> table (snd (load_data ok_env (Some (data_frame [quote42, quote_without_id]))
                   (new_session [] 0)))
       = [(JNum 42, JStr ''Stay'', JStr ''A'', JStr []),
          (JNaN, JStr ''Go'', JStr ''Unknown'', JStr [])]"
  by (simp add: data_frame_example load_data_fourth_fails load_data_stores_nan)

end
